theory Spec2Isabelle
  imports Main "HOL-Library.AList" "HOL-Library.Sublist"
begin

section \<open>Python strings\<close>

text \<open>
  The module \<^verbatim>\<open>salt/modules/localemod.py\<close> works on byte strings. A Python string is a
  \<^typ>\<open>string\<close>; the characters that cannot be written inside a literal get a name.
\<close>

abbreviation dq :: char where "dq \<equiv> CHR 0x22"
abbreviation bsl :: char where "bsl \<equiv> CHR 0x5C"
abbreviation LF :: char where "LF \<equiv> CHR 0x0A"
abbreviation CR :: char where "CR \<equiv> CHR 0x0D"

text \<open>\<^verbatim>\<open>str.strip()\<close>: leading and trailing ASCII whitespace is removed.\<close>

definition py_isspace :: "char \<Rightarrow> bool" where
  "py_isspace c = (c = CHR '' '' \<or> c = CHR 0x09 \<or> c = LF \<or> c = CHR 0x0B \<or> c = CHR 0x0C \<or> c = CR)"

definition strip :: "string \<Rightarrow> string" where
  "strip s = rev (dropWhile py_isspace (rev (dropWhile py_isspace s)))"

text \<open>\<^verbatim>\<open>s.split(c, 1)\<close>: one piece when \<open>c\<close> does not occur, else the text before the
  first \<open>c\<close> and the text after it.\<close>

definition split_once :: "char \<Rightarrow> string \<Rightarrow> string list" where
  "split_once c s =
     (if c \<in> set s then [takeWhile (\<lambda>x. x \<noteq> c) s, tl (dropWhile (\<lambda>x. x \<noteq> c) s)] else [s])"

text \<open>\<^verbatim>\<open>s.split(c)\<close>: the pieces between all occurrences of \<open>c\<close>; never an empty list.\<close>

fun split_char :: "char \<Rightarrow> string \<Rightarrow> string list" where
  "split_char c [] = [[]]"
| "split_char c (x # xs) =
     (if x = c then [] # split_char c xs
      else (case split_char c xs of [] \<Rightarrow> [[x]] | w # ws \<Rightarrow> (x # w) # ws))"

text \<open>\<^verbatim>\<open>s.splitlines()\<close> on a byte string: lines end at \<open>\n\<close>, \<open>\r\<close> or \<open>\r\n\<close>, the
  terminators are dropped, and a terminator at the very end opens no further line.\<close>

fun splitlines_from :: "string \<Rightarrow> string \<Rightarrow> string list" where
  "splitlines_from cur [] = (if cur = [] then [] else [cur])"
| "splitlines_from cur [x] = (if x = LF \<or> x = CR then [cur] else [cur @ [x]])"
| "splitlines_from cur (x # y # xs) =
     (if x = CR \<and> y = LF then cur # splitlines_from [] xs
      else if x = LF \<or> x = CR then cur # splitlines_from [] (y # xs)
      else splitlines_from (cur @ [x]) (y # xs))"

definition splitlines :: "string \<Rightarrow> string list" where
  "splitlines s = splitlines_from [] s"

text \<open>\<^verbatim>\<open>sep.join(xs)\<close>.\<close>

fun join :: "string \<Rightarrow> string list \<Rightarrow> string" where
  "join sep [] = []"
| "join sep [x] = x"
| "join sep (x # y # ys) = x @ sep @ join sep (y # ys)"

text \<open>\<^verbatim>\<open>sub in s\<close> on strings: \<open>sub\<close> occurs in \<open>s\<close> as a contiguous piece.\<close>

fun py_in :: "string \<Rightarrow> string \<Rightarrow> bool" where
  "py_in sub [] = (sub = [])"
| "py_in sub (c # cs) = (prefix sub (c # cs) \<or> py_in sub cs)"

text \<open>\<^verbatim>\<open>s.replace('"', '')\<close>: every double quote is deleted.\<close>

definition unquote :: "string \<Rightarrow> string" where
  "unquote s = filter (\<lambda>c. c \<noteq> dq) s"

section \<open>Errors, effects and the host\<close>

text \<open>
  Every exception the module can raise is a value. \<open>UnboundLocalError\<close> is what Python
  raises when a local variable is read before any assignment to it.
\<close>

datatype py_error =
    UnboundLocalError
  | IndexError
  | AttributeError
  | CommandExecutionError string

text \<open>
  The calls the module makes to the execution modules behind \<^verbatim>\<open>__salt__\<close> and to the
  logger are recorded in the order they are made. \<open>FileReplace path pattern repl\<close> is
  \<^verbatim>\<open>file.replace(path, pattern, repl, append_if_not_found=True)\<close>.
\<close>

datatype action =
    LogError string
  | CmdRun string
  | CmdRetcode string
  | CmdRunAll "string list"
  | FileExists string
  | FileTouch string
  | FileSearch string string
  | FileReplace string string string

record cmd_result =
  retcode :: int
  stdout :: string
  stderr :: string

text \<open>The dictionary returned by \<^verbatim>\<open>salt.utils.locales.split_locale\<close>, with the keys the
  module reads.\<close>

record locale_info =
  language :: string
  territory :: string
  codeset :: string
  charmap :: string

text \<open>
  A Python dictionary of strings is an association list with distinct keys;
  \<^verbatim>\<open>d[k] = v\<close> is \<^const>\<open>AList.update\<close> (the value is replaced where the key stands, a
  new key goes to the end), \<^verbatim>\<open>d.get(k, default)\<close> reads \<^const>\<open>map_of\<close>. The order in which
  the interpreter iterates over a dictionary is not fixed by the language the module
  is written for: \<^verbatim>\<open>six.iteritems(d)\<close> is the answer \<open>iteritems\<close> of the host, of which
  Python promises only that it holds every item of \<open>d\<close> once.
\<close>

type_synonym dict = "(string \<times> string) list"

text \<open>
  The host: the grains, the answers of the collaborators (\<^verbatim>\<open>cmd.run\<close>, \<^verbatim>\<open>cmd.retcode\<close>,
  \<^verbatim>\<open>cmd.run_all\<close>, \<^verbatim>\<open>file.file_exists\<close>, \<^verbatim>\<open>file.search\<close>, \<^verbatim>\<open>os.listdir\<close>,
  \<^verbatim>\<open>os.path.exists\<close>, \<^verbatim>\<open>salt.utils.which\<close>) and the locale-string utilities of
  \<^verbatim>\<open>salt.utils.locales\<close>, whose code is not part of the module. \<open>os_listdir\<close> answers
  \<open>Inl msg\<close> when the listing raises \<^verbatim>\<open>OSError\<close>; \<open>normalize_locale\<close> answers \<open>Inl e\<close> when
  it raises \<open>e\<close>.
\<close>

record host =
  grains_os :: string
  grains_os_family :: string
  cmd_run :: "string \<Rightarrow> string"
  cmd_retcode :: "string \<Rightarrow> int"
  cmd_run_all :: "string list \<Rightarrow> cmd_result"
  file_file_exists :: "string \<Rightarrow> bool"
  file_search :: "string \<Rightarrow> string \<Rightarrow> bool"
  os_listdir :: "string \<Rightarrow> string + string list"
  os_path_exists :: "string \<Rightarrow> bool"
  which :: "string \<Rightarrow> string option"
  split_locale :: "string \<Rightarrow> locale_info"
  join_locale :: "locale_info \<Rightarrow> string"
  normalize_locale :: "string \<Rightarrow> py_error + string"
  iteritems :: "dict \<Rightarrow> dict"

section \<open>The systemd adapter\<close>

text \<open>\<^verbatim>\<open>re.match('^([A-Z_]+)=(.*)$', s)\<close>: the longest run of key characters, which must
  not be empty, then \<open>=\<close>, then the value. The dot matches no \<open>\n\<close>, and \<open>$\<close> matches at the
  end or before one final \<open>\n\<close>. \<open>None\<close> is Python's \<^verbatim>\<open>None\<close> (no match).\<close>

definition is_key_char :: "char \<Rightarrow> bool" where
  "is_key_char c = (c \<in> set ''ABCDEFGHIJKLMNOPQRSTUVWXYZ_'')"

definition re_match_param :: "string \<Rightarrow> (string \<times> string) option" where
  "re_match_param s =
     (let key = takeWhile is_key_char s; rest = dropWhile is_key_char s in
      if key = [] then None
      else (case rest of
              [] \<Rightarrow> None
            | c # v \<Rightarrow>
                if c \<noteq> CHR ''='' then None
                else if LF \<notin> set v then Some (key, v)
                else if last v = LF \<and> LF \<notin> set (butlast v) then Some (key, butlast v)
                else None))"

definition odd_parameter_msg :: "string \<Rightarrow> string" where
  "odd_parameter_msg p =
     ''Odd locale parameter '' @ [dq] @ p @ [dq] @ '' detected in localectl output. '' @
     ''This should not happen. localectl should catch this. '' @
     ''You should probably investigate what caused this.''"

text \<open>
  The loop of \<^verbatim>\<open>_parse_localectl\<close> (a leading underscore cannot start a name here). Its
  state is the local variable \<^verbatim>\<open>cur_param\<close>, which is \<open>None\<close> as long as nothing was
  assigned to it, the dictionary \<^verbatim>\<open>ret\<close> and the errors logged so far. Reading
  \<^verbatim>\<open>cur_param\<close> while it is unbound raises; \<^verbatim>\<open>cols[0]\<close> on an empty list raises too.
\<close>

fun parse_lines ::
  "string option \<Rightarrow> dict \<Rightarrow> action list \<Rightarrow> string list \<Rightarrow> action list \<times> (py_error + dict)"
where
  "parse_lines cur_param ret lg [] = (lg, Inr ret)"
| "parse_lines cur_param ret lg (line # rest) =
     (let cols = map strip (split_once (CHR '':'') line);
          cur_param' = (if length cols > 1 then Some (hd cols) else cur_param);
          cols' = (if length cols > 1 then tl cols else cols)
      in case cur_param' of
           None \<Rightarrow> (lg, Inl UnboundLocalError)
         | Some p \<Rightarrow>
             if p = ''System Locale'' then
               (case cols' of
                  [] \<Rightarrow> (lg, Inl IndexError)
                | c0 # _ \<Rightarrow>
                    (case re_match_param c0 of
                       None \<Rightarrow>
                         parse_lines cur_param' ret (lg @ [LogError (odd_parameter_msg c0)]) rest
                     | Some (key, val) \<Rightarrow>
                         parse_lines cur_param' (AList.update key (unquote val) ret) lg rest))
             else parse_lines cur_param' ret lg rest)"

definition parse_localectl :: "host \<Rightarrow> action list \<times> (py_error + dict)" where
  "parse_localectl h = parse_lines None [] [CmdRun ''localectl''] (splitlines (cmd_run h ''localectl''))"

text \<open>\<^verbatim>\<open>_localectl_get\<close>: \<^verbatim>\<open>_parse_localectl().get('LANG', '')\<close>.\<close>

definition localectl_get :: "host \<Rightarrow> action list \<times> (py_error + string)" where
  "localectl_get h =
     (case parse_localectl h of
        (tr, Inl e) \<Rightarrow> (tr, Inl e)
      | (tr, Inr params) \<Rightarrow>
          (tr, Inr (case map_of params ''LANG'' of None \<Rightarrow> [] | Some v \<Rightarrow> v)))"

text \<open>\<^verbatim>\<open>_localectl_set\<close>: the parsed dictionary with \<open>LANG\<close> stored, one \<^verbatim>\<open>KEY="value"\<close>
  argument per item, and the exit code of the command compared with 0.\<close>

definition format_param :: "string \<times> string \<Rightarrow> string" where
  "format_param kv = fst kv @ ''='' @ [dq] @ snd kv @ [dq]"

definition set_locale_cmd :: "dict \<Rightarrow> string" where
  "set_locale_cmd items = ''localectl set-locale '' @ join '' '' (map format_param items)"

definition localectl_set :: "host \<Rightarrow> string \<Rightarrow> action list \<times> (py_error + bool)" where
  "localectl_set h locale =
     (case parse_localectl h of
        (tr, Inl e) \<Rightarrow> (tr, Inl e)
      | (tr, Inr params) \<Rightarrow>
          (let locale_params = AList.update ''LANG'' locale params;
               cmd = set_locale_cmd (iteritems h locale_params)
           in (tr @ [CmdRetcode cmd], Inr (cmd_retcode h cmd = 0))))"

section \<open>Query, availability and setter\<close>

text \<open>\<^verbatim>\<open>list_avail\<close>: the output of \<^verbatim>\<open>locale -a\<close> split at every \<open>\n\<close>.\<close>

definition list_avail :: "host \<Rightarrow> action list \<times> string list" where
  "list_avail h = ([CmdRun ''locale -a''], split_char LF (cmd_run h ''locale -a''))"

text \<open>\<^verbatim>\<open>xs[1]\<close>, which raises \<^verbatim>\<open>IndexError\<close> on a list shorter than two.\<close>

fun index1 :: "'a list \<Rightarrow> py_error + 'a" where
  "index1 (x # y # ys) = Inr y"
| "index1 xs = Inl IndexError"

text \<open>The last statement of \<^verbatim>\<open>get_locale\<close>:
  \<^verbatim>\<open>cmd.run(cmd).split('=')[1].replace('"', '')\<close>, with \<^verbatim>\<open>IndexError\<close> caught and turned
  into the empty string.\<close>

definition get_locale_extract :: "host \<Rightarrow> string \<Rightarrow> action list \<times> (py_error + string)" where
  "get_locale_extract h cmd =
     ([CmdRun cmd],
      (case index1 (split_char (CHR ''='') (cmd_run h cmd)) of
         Inl e \<Rightarrow> (if e = IndexError then Inr [] else Inl e)
       | Inr x \<Rightarrow> Inr (unquote x)))"

definition grep_lang :: "string \<Rightarrow> string" where
  "grep_lang path = ''grep '' @ [dq] @ ''^LANG='' @ [dq] @ '' '' @ path"

definition get_locale :: "host \<Rightarrow> action list \<times> (py_error + string)" where
  "get_locale h =
     (if py_in ''Arch'' (grains_os_family h) then localectl_get h
      else if py_in ''RedHat'' (grains_os_family h) then
        get_locale_extract h (grep_lang ''/etc/sysconfig/i18n'')
      else if py_in ''Debian'' (grains_os_family h) then
        get_locale_extract h (grep_lang ''/etc/default/locale'')
      else if py_in ''Gentoo'' (grains_os_family h) then
        ([CmdRun ''eselect --brief locale show''],
         Inr (strip (cmd_run h ''eselect --brief locale show'')))
      else get_locale_extract h [])"

text \<open>\<^verbatim>\<open>'LANG="{0}"'.format(locale)\<close>, the replacement \<^verbatim>\<open>set_locale\<close> hands to
  \<^verbatim>\<open>file.replace\<close>.\<close>

definition lang_line :: "string \<Rightarrow> string" where
  "lang_line locale = ''LANG='' @ [dq] @ locale @ [dq]"

definition set_locale :: "host \<Rightarrow> string \<Rightarrow> action list \<times> (py_error + bool)" where
  "set_locale h locale =
     (if py_in ''Arch'' (grains_os_family h) then localectl_set h locale
      else if py_in ''RedHat'' (grains_os_family h) then
        ([FileExists ''/etc/sysconfig/i18n''] @
         (if \<not> file_file_exists h ''/etc/sysconfig/i18n''
          then [FileTouch ''/etc/sysconfig/i18n''] else []) @
         [FileReplace ''/etc/sysconfig/i18n'' ''^LANG=.*'' (lang_line locale)],
         Inr True)
      else if py_in ''Debian'' (grains_os_family h) then
        (case which h ''update-locale'' of
           None \<Rightarrow>
             ([], Inl (CommandExecutionError
                (''Cannot set locale: '' @ [dq] @ ''update-locale'' @ [dq] @ '' was not found.'')))
         | Some update_locale \<Rightarrow>
             ([CmdRun update_locale,
               FileReplace ''/etc/default/locale'' ''^LANG=.*'' (lang_line locale)],
              Inr True))
      else if py_in ''Gentoo'' (grains_os_family h) then
        ([CmdRetcode (''eselect --brief locale set '' @ locale)],
         Inr (cmd_retcode h (''eselect --brief locale set '' @ locale) = 0))
      else ([], Inr True))"

text \<open>
  \<^verbatim>\<open>avail\<close>. The generator handed to \<^verbatim>\<open>next(..., False)\<close> normalizes the trimmed entries
  one after the other and stops at the first that equals the normalized request; it
  runs outside the \<^verbatim>\<open>try\<close>, so an exception of \<^verbatim>\<open>normalize_locale\<close> there is not caught.
\<close>

fun avail_search :: "host \<Rightarrow> string \<Rightarrow> string list \<Rightarrow> py_error + bool" where
  "avail_search h normalized_locale [] = Inr False"
| "avail_search h normalized_locale (x # xs) =
     (case normalize_locale h (strip x) of
        Inl e \<Rightarrow> Inl e
      | Inr y \<Rightarrow> if y = normalized_locale then Inr True else avail_search h normalized_locale xs)"

definition avail :: "host \<Rightarrow> string \<Rightarrow> action list \<times> (py_error + bool)" where
  "avail h locale =
     (case normalize_locale h locale of
        Inl e \<Rightarrow>
          (if e = IndexError
           then ([LogError (''Unable to validate locale '' @ [dq] @ locale @ [dq])], Inr False)
           else ([], Inl e))
      | Inr normalized_locale \<Rightarrow>
          (fst (list_avail h), avail_search h normalized_locale (snd (list_avail h))))"

section \<open>The locale generator\<close>

text \<open>What \<^verbatim>\<open>gen_locale\<close> returns: a boolean, or with \<^verbatim>\<open>verbose\<close> the whole result of the
  compile command.\<close>

datatype gen_ret = RetBool bool | RetRes cmd_result

definition supported_file :: string where
  "supported_file = ''/usr/share/i18n/SUPPORTED''"

text \<open>\<^verbatim>\<open>'^{0}$'.format(locale)\<close>, the pattern handed to \<^verbatim>\<open>file.search\<close>.\<close>

definition line_pattern :: "string \<Rightarrow> string" where
  "line_pattern locale = ''^'' @ locale @ ''$''"

text \<open>\<^verbatim>\<open>"{0}_{1}".format(locale_info['language'], locale_info['territory'])\<close>.\<close>

definition lang_terr :: "locale_info \<Rightarrow> string" where
  "lang_terr locale_info = language locale_info @ ''_'' @ territory locale_info"

text \<open>
  Lines 209 to 227 of \<^verbatim>\<open>gen_locale\<close>, the validation. An exception ends the call; else
  the step leaves the local variables \<^verbatim>\<open>locale\<close>, \<^verbatim>\<open>locale_info\<close>, \<^verbatim>\<open>valid\<close> and \<^verbatim>\<open>search\<close>,
  of which the first two change when the charmap is copied from the codeset.
\<close>

definition gen_locale_validate ::
  "host \<Rightarrow> string \<Rightarrow> action list \<times> (py_error + string \<times> locale_info \<times> bool \<times> string)"
where
  "gen_locale_validate h locale =
     (let on_debian = (grains_os h = ''Debian'');
          on_gentoo = (grains_os_family h = ''Gentoo'');
          on_suse = (grains_os_family h = ''Suse'');
          locale_info = split_locale h locale
      in if on_debian \<or> on_gentoo then
           (let search = supported_file;
                valid = file_search h search (line_pattern locale)
            in if \<not> valid \<and> charmap locale_info = [] then
                 (let locale_info' = locale_info\<lparr>charmap := codeset locale_info\<rparr>;
                      locale' = join_locale h locale_info';
                      valid' = file_search h search (line_pattern locale')
                  in ([FileSearch search (line_pattern locale),
                       FileSearch search (line_pattern locale')],
                      Inr (locale', locale_info', valid', search)))
               else ([FileSearch search (line_pattern locale)],
                     Inr (locale, locale_info, valid, search)))
         else
           (let search = (if on_suse then ''/usr/share/locale'' else ''/usr/share/i18n/locales'')
            in case os_listdir h search of
                 Inl ex \<Rightarrow>
                   ([LogError ex],
                    Inl (CommandExecutionError
                      (''Locale '' @ [dq] @ locale @ [dq] @ '' is not available.'')))
               | Inr entries \<Rightarrow>
                   ([], Inr (locale, locale_info, lang_terr locale_info \<in> set entries, search))))"

text \<open>Lines 233 to 249, the registration in \<^verbatim>\<open>/etc/locale.gen\<close> or, on Ubuntu, in the
  per-language file. The pattern of the first is \<^verbatim>\<open>r'^\s*#\s*{0}\s*$'.format(locale)\<close>.\<close>

definition locale_gen_pattern :: "string \<Rightarrow> string" where
  "locale_gen_pattern locale =
     ''^'' @ [bsl] @ ''s*#'' @ [bsl] @ ''s*'' @ locale @ [bsl] @ ''s*$''"

definition gen_locale_register :: "host \<Rightarrow> string \<Rightarrow> locale_info \<Rightarrow> action list" where
  "gen_locale_register h locale locale_info =
     (if os_path_exists h ''/etc/locale.gen'' then
        [FileReplace ''/etc/locale.gen'' (locale_gen_pattern locale) locale]
      else if grains_os h = ''Ubuntu'' then
        [FileTouch (''/var/lib/locales/supported.d/'' @ language locale_info),
         FileReplace (''/var/lib/locales/supported.d/'' @ language locale_info) locale locale]
      else [])"

text \<open>Lines 251 to 265, the choice of the compile command; \<open>None\<close> of \<^const>\<open>which\<close> is
  Python's \<^verbatim>\<open>None\<close>.\<close>

definition gen_locale_cmd ::
  "host \<Rightarrow> string \<Rightarrow> locale_info \<Rightarrow> bool \<Rightarrow> py_error + string list"
where
  "gen_locale_cmd h locale locale_info verbose =
     (if which h ''locale-gen'' \<noteq> None then
        Inr ([''locale-gen''] @
             (if grains_os_family h = ''Gentoo'' then [''--generate''] else []) @
             (if \<not> grains_os h = ''Ubuntu'' then [locale] else []))
      else if which h ''localedef'' \<noteq> None then
        Inr ([''localedef'', ''--force'', ''-i'', lang_terr locale_info,
              ''-f'', codeset locale_info, locale] @
             [if verbose then ''--verbose'' else ''--quiet''])
      else Inl (CommandExecutionError
             (''Command '' @ [dq] @ ''locale-gen'' @ [dq] @ '' or '' @ [dq] @ ''localedef'' @ [dq] @
              '' was not found on this system.'')))"

definition not_found_msg :: "string \<Rightarrow> string \<Rightarrow> string" where
  "not_found_msg locale search =
     ''The provided locale '' @ [dq] @ locale @ [dq] @ '' is not found in '' @ search"

definition gen_locale :: "host \<Rightarrow> string \<Rightarrow> bool \<Rightarrow> action list \<times> (py_error + gen_ret)" where
  "gen_locale h locale verbose =
     (case gen_locale_validate h locale of
        (tr, Inl e) \<Rightarrow> (tr, Inl e)
      | (tr, Inr (locale', locale_info, valid, search)) \<Rightarrow>
          if \<not> valid then (tr @ [LogError (not_found_msg locale' search)], Inr (RetBool False))
          else
            (let tr' = tr @ gen_locale_register h locale' locale_info in
             case gen_locale_cmd h locale' locale_info verbose of
               Inl e \<Rightarrow> (tr', Inl e)
             | Inr cmd \<Rightarrow>
                 (let res = cmd_run_all h cmd in
                  (tr' @ [CmdRunAll cmd] @
                   (if retcode res \<noteq> 0 then [LogError (stderr res)] else []),
                   Inr (if verbose then RetRes res else RetBool (retcode res = 0))))))"

section \<open>The file edit of the setter\<close>

text \<open>
  Modelled from the spec: \<^verbatim>\<open>file.replace(path, pattern, repl, append_if_not_found=True)\<close>
  of \<^verbatim>\<open>salt/modules/file.py\<close> is not among the sources. The specification says of it:
  find a line matching \<^verbatim>\<open>^LANG=.*\<close>; replace it with \<^verbatim>\<open>LANG="<locale>"\<close>; if no such line
  exists, append one. The file content is a byte string whose lines are separated by
  \<open>\n\<close>. A line matches \<^verbatim>\<open>^LANG=.*\<close> when it begins with \<^verbatim>\<open>LANG=\<close>, and the match is then the
  whole line, so every matching line becomes the replacement, taken literally. When
  no line matches,
  the replacement is added as a last line, after a line break if the content does not
  end with one.
\<close>

definition matches_lang :: "string \<Rightarrow> bool" where
  "matches_lang l = prefix ''LANG='' l"

definition file_replace_lang :: "string \<Rightarrow> string \<Rightarrow> string" where
  "file_replace_lang repl content =
     (if \<exists>l \<in> set (split_char LF content). matches_lang l then
        join [LF] (map (\<lambda>l. if matches_lang l then repl else l) (split_char LF content))
      else (if content = [] \<or> last content = LF then content else content @ [LF]) @ repl @ [LF])"

text \<open>The edit \<^verbatim>\<open>set_locale\<close> asks for on RedHat and Debian, on the content of the file.\<close>

definition set_locale_edit :: "string \<Rightarrow> string \<Rightarrow> string" where
  "set_locale_edit locale content = file_replace_lang (lang_line locale) content"

section \<open>The file search of the generator\<close>


fun dot_match :: "string \<Rightarrow> string \<Rightarrow> bool" where
  "dot_match [] l = (l = [])"
| "dot_match (p # ps) [] = False"
| "dot_match (p # ps) (c # cs) = ((if p = CHR ''.'' then c \<noteq> LF else c = p) \<and> dot_match ps cs)"




section \<open>The wording of the specification\<close>

text \<open>The specification's "text after the first \<open>=\<close>" of a command output, written
  down from its words to be compared with what \<^const>\<open>get_locale\<close> extracts.\<close>

definition spec_text_after_first_equals :: "string \<Rightarrow> string" where
  "spec_text_after_first_equals out = tl (dropWhile (\<lambda>x. x \<noteq> CHR ''='') out)"

section \<open>Example hosts\<close>

text \<open>
  Concrete hosts on which the operations are evaluated. The locale-string utilities
  of these hosts are small stand-ins: the splitter knows \<^verbatim>\<open>en_US.UTF-8\<close> with and without
  a charmap and takes any other string for a bare language, the joiner writes
  \<^verbatim>\<open>language_territory.codeset\<close> and the charmap after a blank, and the normalizer fails
  with \<^verbatim>\<open>IndexError\<close> on the empty string and folds \<^verbatim>\<open>en_US.UTF-8\<close> to \<^verbatim>\<open>en_US.utf8\<close>.
  Dictionaries are iterated in the order of insertion.
\<close>

definition example_split :: "string \<Rightarrow> locale_info" where
  "example_split s =
     (if s = ''en_US.UTF-8'' then
        \<lparr>language = ''en'', territory = ''US'', codeset = ''UTF-8'', charmap = []\<rparr>
      else if s = ''en_US.UTF-8 UTF-8'' then
        \<lparr>language = ''en'', territory = ''US'', codeset = ''UTF-8'', charmap = ''UTF-8''\<rparr>
      else \<lparr>language = s, territory = [], codeset = [], charmap = []\<rparr>)"

definition example_join :: "locale_info \<Rightarrow> string" where
  "example_join i =
     language i @ ''_'' @ territory i @ ''.'' @ codeset i @
     (if charmap i = [] then [] else '' '' @ charmap i)"

definition example_normalize :: "string \<Rightarrow> py_error + string" where
  "example_normalize s =
     (if s = [] then Inl IndexError
      else Inr (if s = ''en_US.UTF-8'' then ''en_US.utf8'' else s))"

definition base_host :: host where
  "base_host =
     \<lparr>grains_os = ''Arch'', grains_os_family = ''Arch'',
      cmd_run = (\<lambda>_. []),
      cmd_retcode = (\<lambda>_. 0),
      cmd_run_all = (\<lambda>_. \<lparr>retcode = 0, stdout = [], stderr = []\<rparr>),
      file_file_exists = (\<lambda>_. False),
      file_search = (\<lambda>_ _. False),
      os_listdir = (\<lambda>_. Inl ''No such file or directory''),
      os_path_exists = (\<lambda>_. False),
      which = (\<lambda>_. None),
      split_locale = example_split,
      join_locale = example_join,
      normalize_locale = example_normalize,
      iteritems = (\<lambda>d. d)\<rparr>"

text \<open>An Arch host whose \<^verbatim>\<open>localectl\<close> prints a System Locale block of two parameters.\<close>

definition arch_host :: host where
  "arch_host =
     base_host\<lparr>cmd_run := (\<lambda>c. if c = ''localectl''
        then ''   System Locale: LANG=a'' @ [LF] @
             ''                  LC_TIME=b'' @ [LF] @
             ''       VC Keymap: us''
        else [])\<rparr>"

text \<open>A host of the given OS family on which every command prints \<open>out\<close>.\<close>

definition printing_host :: "string \<Rightarrow> string \<Rightarrow> host" where
  "printing_host fam out = base_host\<lparr>grains_os := fam, grains_os_family := fam, cmd_run := (\<lambda>_. out)\<rparr>"

text \<open>
  A host for the generator: the SUPPORTED file holds the one line
  \<^verbatim>\<open>en_US.UTF-8 UTF-8\<close>, the directory \<^verbatim>\<open>/usr/share/i18n/locales\<close> holds \<^verbatim>\<open>en_US\<close> and
  \<^verbatim>\<open>de_DE\<close> and no other directory can be listed, \<^verbatim>\<open>/etc/locale.gen\<close> exists, and the
  tools on the search path are those of \<open>tools\<close>.
\<close>

definition gen_host :: "string \<Rightarrow> string \<Rightarrow> string list \<Rightarrow> host" where
  "gen_host os fam tools =
     base_host\<lparr>grains_os := os, grains_os_family := fam,
       file_search := (\<lambda>path pat. path = supported_file \<and> pat = ''^en_US.UTF-8 UTF-8$''),
       os_listdir := (\<lambda>path. if path = ''/usr/share/i18n/locales''
                               then Inr [''en_US'', ''de_DE'']
                               else Inl ''No such file or directory''),
       os_path_exists := (\<lambda>path. path = ''/etc/locale.gen''),
       which := (\<lambda>name. if name \<in> set tools then Some (''/usr/sbin/'' @ name) else None)\<rparr>"



section \<open>Facts about the string functions\<close>

lemma split_once_cases:
  "(\<exists>a. split_once c s = [a]) \<or> (\<exists>a b. split_once c s = [a, b])"
  by (simp add: split_once_def)

lemma split_char_nonempty: "split_char c s \<noteq> []"
  by (induction s) (auto split: list.splits)

lemma hd_split_char: "hd (split_char c s) = takeWhile (\<lambda>x. x \<noteq> c) s"
  by (induction s) (auto simp: split_char_nonempty split: list.splits)

lemma split_char_absent: "c \<notin> set s \<Longrightarrow> split_char c s = [s]"
  by (induction s) auto

lemma split_char_present:
  "c \<in> set s \<Longrightarrow>
   split_char c s = takeWhile (\<lambda>x. x \<noteq> c) s # split_char c (tl (dropWhile (\<lambda>x. x \<noteq> c) s))"
proof (induction s)
  case Nil
  then show ?case by simp
next
  case (Cons x xs)
  show ?case
  proof (cases "x = c")
    case True
    then show ?thesis by simp
  next
    case False
    with Cons.prems have "c \<in> set xs" by simp
    from Cons.IH [OF this] False show ?thesis by simp
  qed
qed

lemma index1_Cons: "xs \<noteq> [] \<Longrightarrow> index1 (a # xs) = Inr (hd xs)"
  by (cases xs) simp_all

text \<open>\<^verbatim>\<open>s.split(c)[1]\<close> is the text between the first and the second \<open>c\<close>, and raises
  when \<open>s\<close> holds no \<open>c\<close>.\<close>

lemma index1_split_char:
  "index1 (split_char c s) =
     (if c \<in> set s then Inr (takeWhile (\<lambda>x. x \<noteq> c) (tl (dropWhile (\<lambda>x. x \<noteq> c) s)))
      else Inl IndexError)"
proof (cases "c \<in> set s")
  case True
  then show ?thesis
    by (simp add: split_char_present index1_Cons split_char_nonempty hd_split_char)
next
  case False
  then show ?thesis by (simp add: split_char_absent)
qed

lemma set_update_distinct:
  "distinct (map fst al) \<Longrightarrow>
   set (AList.update k v al) = {p \<in> set al. fst p \<noteq> k} \<union> {(k, v)}"
  by (induction al) (auto simp: rev_image_eqI)

lemma py_in_families:
  "\<not> py_in ''Arch'' ''RedHat''" "py_in ''RedHat'' ''RedHat''"
  "\<not> py_in ''Arch'' ''Debian''" "\<not> py_in ''RedHat'' ''Debian''" "py_in ''Debian'' ''Debian''"
  by simp_all

section \<open>The systemd adapter: parsing\<close>

text \<open>Once \<^verbatim>\<open>cur_param\<close> is bound the loop runs to its end: a line outside the block
  changes nothing, an entry that fails the pattern only adds a log record.\<close>

lemma parse_lines_bound:
  "\<exists>tr d. parse_lines (Some p) ret lg ls = (tr, Inr d)"
proof (induction ls arbitrary: p ret lg)
  case Nil
  show ?case by simp
next
  case (Cons line rest)
  from split_once_cases [of "CHR '':''" line] show ?case
  proof
    assume "\<exists>a. split_once (CHR '':'') line = [a]"
    then obtain a where a: "split_once (CHR '':'') line = [a]" ..
    show ?thesis using Cons.IH by (simp add: a Let_def split: option.split)
  next
    assume "\<exists>a b. split_once (CHR '':'') line = [a, b]"
    then obtain a b where ab: "split_once (CHR '':'') line = [a, b]" by blast
    show ?thesis using Cons.IH by (simp add: ab Let_def split: option.split)
  qed
qed

text \<open>A first line without a colon leaves \<^verbatim>\<open>cur_param\<close> unbound at its first read.\<close>

lemma parse_lines_first_line_without_colon:
  "CHR '':'' \<notin> set line \<Longrightarrow> parse_lines None ret lg (line # rest) = (lg, Inl UnboundLocalError)"
  by (simp add: split_once_def)

text \<open>A first line with a colon binds it, whatever follows.\<close>

lemma parse_lines_first_line_with_colon:
  assumes "CHR '':'' \<in> set line"
  shows "\<exists>tr d. parse_lines cur ret lg (line # rest) = (tr, Inr d)"
proof -
  obtain a b where ab: "split_once (CHR '':'') line = [a, b]"
    using assms by (simp add: split_once_def)
  show ?thesis
    using parse_lines_bound [of _ _ _ rest]
    by (simp add: ab Let_def split: option.split)
qed

lemma parse_lines_distinct:
  "distinct (map fst ret) \<Longrightarrow> parse_lines cur ret lg ls = (tr, Inr d) \<Longrightarrow> distinct (map fst d)"
proof (induction ls arbitrary: cur ret lg)
  case Nil
  then show ?case by simp
next
  case (Cons line rest)
  note ih_same = Cons.IH [OF Cons.prems(1)]
  note ih_upd = Cons.IH [OF distinct_update [OF Cons.prems(1)]]
  from split_once_cases [of "CHR '':''" line] show ?case
  proof
    assume "\<exists>a. split_once (CHR '':'') line = [a]"
    then obtain a where a: "split_once (CHR '':'') line = [a]" ..
    show ?thesis using ih_upd ih_same Cons.prems(2)
      by (auto simp add: a Let_def split: option.splits if_splits)
  next
    assume "\<exists>a b. split_once (CHR '':'') line = [a, b]"
    then obtain a b where ab: "split_once (CHR '':'') line = [a, b]" by blast
    show ?thesis using ih_upd ih_same Cons.prems(2)
      by (auto simp add: ab Let_def split: option.splits if_splits)
  qed
qed

text \<open>
  C3. The claim: for every sequence of localectl output lines \<^verbatim>\<open>_parse_localectl\<close> never
  raises. The code does raise: on the output \<^verbatim>\<open>foo\<close>, whose first line holds no colon,
  the loop reads \<^verbatim>\<open>cur_param\<close> before anything was assigned to it, and the call ends
  with \<^verbatim>\<open>UnboundLocalError\<close>, on every host.
\<close>

theorem parse_localectl_raises_on_first_line_without_colon:
  "parse_localectl (h\<lparr>cmd_run := \<lambda>_. ''foo''\<rparr>) = ([CmdRun ''localectl''], Inl UnboundLocalError)"
  by (simp add: parse_localectl_def splitlines_def split_once_def)

section \<open>The systemd adapter: setting LANG\<close>

lemma distinct_keys_of_permutation:
  assumes "distinct (map fst d)" and "distinct items" and "set items = set d"
  shows "distinct (map fst items)"
proof -
  from assms(1) have "inj_on fst (set d)" by (simp add: distinct_map)
  with assms(2,3) show ?thesis by (simp add: distinct_map)
qed

text \<open>
  C1. For every parameter map obtained by parsing the localectl output, and whatever
  the order in which the interpreter iterates over a dictionary,
  \<^verbatim>\<open>_localectl_set(locale)\<close> runs the command line \<^verbatim>\<open>localectl set-locale\<close> followed by the
  arguments \<^verbatim>\<open>KEY="value"\<close>, joined by blanks, of a list of items that holds every key
  once and consists of the parsed parameters other than \<open>LANG\<close>, unchanged, and of
  \<open>LANG\<close> with the requested value; and it returns true iff the exit code of that
  command is 0.
\<close>

theorem localectl_set_keeps_other_parameters:
  assumes "parse_localectl h = (tr, Inr params)"
    and "distinct (iteritems h (AList.update ''LANG'' locale params)) \<and>
         set (iteritems h (AList.update ''LANG'' locale params)) =
           set (AList.update ''LANG'' locale params)"
  shows "\<exists>items cmd.
           cmd = ''localectl set-locale '' @
                 join '' '' (map (\<lambda>kv. fst kv @ ''='' @ [dq] @ snd kv @ [dq]) items) \<and>
           localectl_set h locale = (tr @ [CmdRetcode cmd], Inr (cmd_retcode h cmd = 0)) \<and>
           distinct (map fst items) \<and>
           set items = {p \<in> set params. fst p \<noteq> ''LANG''} \<union> {(''LANG'', locale)} \<and>
           map_of items = (map_of params)(''LANG'' \<mapsto> locale)"
proof -
  let ?d = "AList.update ''LANG'' locale params"
  let ?items = "iteritems h ?d"
  let ?cmd = "''localectl set-locale '' @
              join '' '' (map (\<lambda>kv. fst kv @ ''='' @ [dq] @ snd kv @ [dq]) ?items)"
  have d: "distinct (map fst params)"
    using assms(1) parse_lines_distinct [of "[]"] by (simp add: parse_localectl_def)
  then have dd: "distinct (map fst ?d)" by (rule distinct_update)
  have c: "set_locale_cmd ?items = ?cmd"
    by (simp add: set_locale_cmd_def format_param_def [abs_def])
  have run: "localectl_set h locale = (tr @ [CmdRetcode ?cmd], Inr (cmd_retcode h ?cmd = 0))"
    using assms(1) by (simp add: localectl_set_def Let_def c)
  have keys: "distinct (map fst ?items)"
    using assms(2) distinct_keys_of_permutation [OF dd, of ?items] by simp
  have items: "set ?items = {p \<in> set params. fst p \<noteq> ''LANG''} \<union> {(''LANG'', locale)}"
    using assms(2) set_update_distinct [OF d, of "''LANG''" "locale"] by simp
  have "map_of ?items = map_of ?d"
    using keys dd assms(2) by (simp add: map_of_inject_set)
  then have lookup: "map_of ?items = (map_of params)(''LANG'' \<mapsto> locale)"
    by (simp add: update_conv')
  from run keys items lookup show ?thesis by blast
qed

text \<open>On the Arch example host the parsed map is \<open>{LANG: a, LC_TIME: b}\<close>, and setting
  \<open>LANG\<close> to \<open>c\<close> runs \<^verbatim>\<open>localectl set-locale LANG="c" LC_TIME="b"\<close>.\<close>

theorem localectl_set_keeps_other_parameters_witness:
  "parse_localectl arch_host =
     ([CmdRun ''localectl''], Inr [(''LANG'', ''a''), (''LC_TIME'', ''b'')]) \<and>
   localectl_set arch_host ''c'' =
     ([CmdRun ''localectl'',
       CmdRetcode (''localectl set-locale LANG='' @ [dq] @ ''c'' @ [dq] @
                   '' LC_TIME='' @ [dq] @ ''b'' @ [dq])],
      Inr True) \<and>
   (\<exists>items cmd.
      cmd = ''localectl set-locale '' @
            join '' '' (map (\<lambda>kv. fst kv @ ''='' @ [dq] @ snd kv @ [dq]) items) \<and>
      localectl_set arch_host ''c'' =
        ([CmdRun ''localectl''] @ [CmdRetcode cmd], Inr (cmd_retcode arch_host cmd = 0)) \<and>
      distinct (map fst items) \<and>
      set items = {p \<in> set [(''LANG'', ''a''), (''LC_TIME'', ''b'')]. fst p \<noteq> ''LANG''} \<union>
                  {(''LANG'', ''c'')} \<and>
      map_of items = (map_of [(''LANG'', ''a''), (''LC_TIME'', ''b'')])(''LANG'' \<mapsto> ''c''))"
proof -
  have p: "parse_localectl arch_host =
     ([CmdRun ''localectl''], Inr [(''LANG'', ''a''), (''LC_TIME'', ''b'')])"
    by code_simp
  have it: "iteritems arch_host = (\<lambda>d. d)"
    by (simp add: arch_host_def base_host_def)
  have o: "distinct (iteritems arch_host
             (AList.update ''LANG'' ''c'' [(''LANG'', ''a''), (''LC_TIME'', ''b'')])) \<and>
      set (iteritems arch_host
             (AList.update ''LANG'' ''c'' [(''LANG'', ''a''), (''LC_TIME'', ''b'')])) =
      set (AList.update ''LANG'' ''c'' [(''LANG'', ''a''), (''LC_TIME'', ''b'')])"
    by (simp add: it)
  have e: "localectl_set arch_host ''c'' =
     ([CmdRun ''localectl'',
       CmdRetcode (''localectl set-locale LANG='' @ [dq] @ ''c'' @ [dq] @
                   '' LC_TIME='' @ [dq] @ ''b'' @ [dq])],
      Inr True)"
    using p by (simp add: localectl_set_def Let_def it set_locale_cmd_def format_param_def
        arch_host_def base_host_def)
  from p e localectl_set_keeps_other_parameters [OF p o] show ?thesis by (intro conjI)
qed

section \<open>The locale query\<close>

text \<open>
  What the last statement of \<^verbatim>\<open>get_locale\<close> extracts. On the RedHat and Debian families
  (the family name holds \<^verbatim>\<open>RedHat\<close>, or else \<^verbatim>\<open>Debian\<close>, and not \<^verbatim>\<open>Arch\<close>) the command is the
  grep on the family's file, on an unrecognized family it is the empty command. The
  result is the piece of the output between its first and its second \<open>=\<close>, without the
  double quotes, and the empty string when the output holds no \<open>=\<close>; nothing is raised.
\<close>

lemma get_locale_extraction:
  assumes "\<not> py_in ''Arch'' (grains_os_family h)"
    and "py_in ''RedHat'' (grains_os_family h) \<and> cmd = grep_lang ''/etc/sysconfig/i18n'' \<or>
         \<not> py_in ''RedHat'' (grains_os_family h) \<and> py_in ''Debian'' (grains_os_family h) \<and>
         cmd = grep_lang ''/etc/default/locale'' \<or>
         \<not> py_in ''RedHat'' (grains_os_family h) \<and> \<not> py_in ''Debian'' (grains_os_family h) \<and>
         \<not> py_in ''Gentoo'' (grains_os_family h) \<and> cmd = []"
  shows "get_locale h =
           ([CmdRun cmd],
            Inr (if CHR ''='' \<in> set (cmd_run h cmd)
                 then unquote (takeWhile (\<lambda>x. x \<noteq> CHR ''='')
                                 (tl (dropWhile (\<lambda>x. x \<noteq> CHR ''='') (cmd_run h cmd))))
                 else []))"
proof -
  have "get_locale h = get_locale_extract h cmd"
    using assms by (auto simp add: get_locale_def)
  then show ?thesis
    by (simp add: get_locale_extract_def index1_split_char)
qed

text \<open>When the output holds one \<open>=\<close> only, that piece is the text after the first \<open>=\<close>, and
  when it holds none the result is the empty string.\<close>

lemma get_locale_single_equals:
  assumes "\<not> py_in ''Arch'' (grains_os_family h)"
    and "py_in ''RedHat'' (grains_os_family h) \<and> cmd = grep_lang ''/etc/sysconfig/i18n'' \<or>
         \<not> py_in ''RedHat'' (grains_os_family h) \<and> py_in ''Debian'' (grains_os_family h) \<and>
         cmd = grep_lang ''/etc/default/locale''"
    and "CHR ''='' \<in> set (cmd_run h cmd)"
    and "CHR ''='' \<notin> set (spec_text_after_first_equals (cmd_run h cmd))"
  shows "get_locale h = ([CmdRun cmd], Inr (unquote (spec_text_after_first_equals (cmd_run h cmd))))"
proof -
  have whole: "takeWhile (\<lambda>x. x \<noteq> CHR ''='') (spec_text_after_first_equals (cmd_run h cmd)) =
      spec_text_after_first_equals (cmd_run h cmd)"
    using assms(4) by (auto simp add: takeWhile_eq_all_conv)
  have "get_locale h =
           ([CmdRun cmd],
            Inr (if CHR ''='' \<in> set (cmd_run h cmd)
                 then unquote (takeWhile (\<lambda>x. x \<noteq> CHR ''='')
                                 (tl (dropWhile (\<lambda>x. x \<noteq> CHR ''='') (cmd_run h cmd))))
                 else []))"
    using assms(2) by (intro get_locale_extraction [OF assms(1)]) blast
  with assms(3) have "get_locale h =
      ([CmdRun cmd],
       Inr (unquote (takeWhile (\<lambda>x. x \<noteq> CHR ''='')
                       (tl (dropWhile (\<lambda>x. x \<noteq> CHR ''='') (cmd_run h cmd))))))"
    by (simp only: if_True)
  then have "get_locale h =
      ([CmdRun cmd],
       Inr (unquote (takeWhile (\<lambda>x. x \<noteq> CHR ''='')
                       (spec_text_after_first_equals (cmd_run h cmd)))))"
    by (simp only: spec_text_after_first_equals_def)
  then show ?thesis by (simp only: whole)
qed

lemma get_locale_no_equals:
  assumes "\<not> py_in ''Arch'' (grains_os_family h)"
    and "py_in ''RedHat'' (grains_os_family h) \<and> cmd = grep_lang ''/etc/sysconfig/i18n'' \<or>
         \<not> py_in ''RedHat'' (grains_os_family h) \<and> py_in ''Debian'' (grains_os_family h) \<and>
         cmd = grep_lang ''/etc/default/locale'' \<or>
         \<not> py_in ''RedHat'' (grains_os_family h) \<and> \<not> py_in ''Debian'' (grains_os_family h) \<and>
         \<not> py_in ''Gentoo'' (grains_os_family h) \<and> cmd = []"
    and "CHR ''='' \<notin> set (cmd_run h cmd)"
  shows "get_locale h = ([CmdRun cmd], Inr [])"
  using get_locale_extraction [OF assms(1,2)] assms(3) by simp

text \<open>A Debian host whose grep prints \<^verbatim>\<open>LANG="en_US.UTF-8"\<close>, a RedHat host whose grep
  prints nothing, and a host of the unknown family \<^verbatim>\<open>Solaris\<close> whose empty command
  prints nothing.\<close>

lemma get_locale_examples:
  "get_locale (printing_host ''Debian'' (''LANG='' @ [dq] @ ''en_US.UTF-8'' @ [dq])) =
     ([CmdRun (grep_lang ''/etc/default/locale'')], Inr ''en_US.UTF-8'') \<and>
   get_locale (printing_host ''RedHat'' []) =
     ([CmdRun (grep_lang ''/etc/sysconfig/i18n'')], Inr []) \<and>
   get_locale (printing_host ''Solaris'' []) = ([CmdRun []], Inr [])"
proof -
  define d where "d = printing_host ''Debian'' (''LANG='' @ [dq] @ ''en_US.UTF-8'' @ [dq])"
  define r where "r = printing_host ''RedHat'' []"
  define u where "u = printing_host ''Solaris'' []"
  have fam: "grains_os_family d = ''Debian''" "grains_os_family r = ''RedHat''"
    "grains_os_family u = ''Solaris''"
    by (simp_all add: d_def r_def u_def printing_host_def base_host_def)
  have out: "cmd_run d = (\<lambda>_. ''LANG='' @ [dq] @ ''en_US.UTF-8'' @ [dq])" "cmd_run r = (\<lambda>_. [])"
    "cmd_run u = (\<lambda>_. [])"
    by (simp_all add: d_def r_def u_def printing_host_def base_host_def)
  have 1: "get_locale d = ([CmdRun (grep_lang ''/etc/default/locale'')], Inr ''en_US.UTF-8'')"
    using get_locale_extraction [of d "grep_lang ''/etc/default/locale''"]
    by (simp add: fam out unquote_def)
  have 2: "get_locale r = ([CmdRun (grep_lang ''/etc/sysconfig/i18n'')], Inr [])"
    using get_locale_extraction [of r "grep_lang ''/etc/sysconfig/i18n''"]
    by (simp add: fam out)
  have 3: "get_locale u = ([CmdRun []], Inr [])"
    using get_locale_extraction [of u "[]"]
    by (simp add: fam out)
  from 1 2 3 show ?thesis unfolding d_def r_def u_def by blast
qed

text \<open>
  C5. The claim: on the RedHat and Debian families \<^verbatim>\<open>get_locale\<close> returns the text after
  the first \<open>=\<close> of the grep output with the quotes stripped. The code does not keep
  that text whole: \<^verbatim>\<open>split('=')[1]\<close> ends at the second \<open>=\<close>. On a RedHat host whose grep
  prints \<^verbatim>\<open>LANG=a=b\<close> the text after the first \<open>=\<close> is \<^verbatim>\<open>a=b\<close>, and \<^verbatim>\<open>get_locale\<close> returns
  \<^verbatim>\<open>a\<close>.
\<close>

theorem get_locale_truncates_at_second_equals:
  "get_locale (printing_host ''RedHat'' ''LANG=a=b'') =
     ([CmdRun (grep_lang ''/etc/sysconfig/i18n'')], Inr ''a'') \<and>
   unquote (spec_text_after_first_equals
     (cmd_run (printing_host ''RedHat'' ''LANG=a=b'') (grep_lang ''/etc/sysconfig/i18n''))) = ''a=b''"
  by code_simp

text \<open>The sibling path of the Arch family keeps the whole value: the pattern of
  \<^verbatim>\<open>_parse_localectl\<close> takes everything after the first \<open>=\<close>, so with \<^verbatim>\<open>localectl\<close> printing
  \<^verbatim>\<open>System Locale: LANG=a=b\<close> the same query returns \<^verbatim>\<open>a=b\<close>.\<close>

lemma get_locale_arch_keeps_second_equals:
  "get_locale (printing_host ''Arch'' ''System Locale: LANG=a=b'') =
     ([CmdRun ''localectl''], Inr ''a=b'')"
  by code_simp

section \<open>The setter\<close>

text \<open>On the RedHat and Debian families the last call of \<^verbatim>\<open>set_locale\<close> is the
  \<^verbatim>\<open>file.replace\<close> of the pattern \<^verbatim>\<open>^LANG=.*\<close> by \<^verbatim>\<open>LANG="<locale>"\<close> on the family's file,
  and the result is true.\<close>

lemma set_locale_redhat_edit:
  assumes "\<not> py_in ''Arch'' (grains_os_family h)" and "py_in ''RedHat'' (grains_os_family h)"
  shows "last (fst (set_locale h locale)) =
           FileReplace ''/etc/sysconfig/i18n'' ''^LANG=.*'' (lang_line locale) \<and>
         snd (set_locale h locale) = Inr True"
  using assms by (simp add: set_locale_def)

lemma set_locale_debian_edit:
  assumes "\<not> py_in ''Arch'' (grains_os_family h)" and "\<not> py_in ''RedHat'' (grains_os_family h)"
    and "py_in ''Debian'' (grains_os_family h)" and "which h ''update-locale'' = Some update_locale"
  shows "set_locale h locale =
           ([CmdRun update_locale,
             FileReplace ''/etc/default/locale'' ''^LANG=.*'' (lang_line locale)],
            Inr True)"
  using assms by (simp add: set_locale_def)

section \<open>The availability check\<close>

lemma avail_search_returns:
  "avail_search h n xs = Inr b \<Longrightarrow>
   b = (\<exists>x \<in> set xs. normalize_locale h (strip x) = Inr n)"
  by (induction xs) (auto split: sum.splits if_splits)

lemma avail_search_total:
  "\<forall>x \<in> set xs. \<exists>y. normalize_locale h (strip x) = Inr y \<Longrightarrow>
   avail_search h n xs = Inr (\<exists>x \<in> set xs. normalize_locale h (strip x) = Inr n)"
  by (induction xs) (auto split: sum.splits)

lemma avail_search_propagates:
  "\<forall>p \<in> set pre. \<exists>y. normalize_locale h (strip p) = Inr y \<and> y \<noteq> n \<Longrightarrow>
   normalize_locale h (strip x) = Inl e \<Longrightarrow>
   avail_search h n (pre @ x # post) = Inl e"
  by (induction pre) (auto split: sum.splits)

lemma avail_search_first_match:
  "\<forall>p \<in> set pre. \<exists>y. normalize_locale h (strip p) = Inr y \<and> y \<noteq> n \<Longrightarrow>
   normalize_locale h (strip x) = Inr n \<Longrightarrow>
   avail_search h n (pre @ x # post) = Inr True"
  by (induction pre) (auto split: sum.splits)

lemma avail_search_no_match:
  "\<forall>x \<in> set xs. \<exists>y. normalize_locale h (strip x) = Inr y \<and> y \<noteq> n \<Longrightarrow>
   avail_search h n xs = Inr False"
  by (induction xs) (auto split: sum.splits)

text \<open>
  C4, amended. \<^verbatim>\<open>avail\<close> returns false, without raising, if normalizing the request
  fails with \<^verbatim>\<open>IndexError\<close>. Otherwise it goes through the available-locales list in
  order: it returns true at the first entry that, after trimming and the same
  normalization, equals the normalized request, whatever follows that entry, when the
  entries before it normalize; it returns false when every entry normalizes and none
  equals the normalized request. So whenever it returns, it returns true iff some
  entry equals the normalized request after trimming and normalization, and it does
  return when the normalization of every trimmed entry succeeds. Two requests that
  normalize equally have the same outcome against the same list.
\<close>

theorem avail_decides:
  "(normalize_locale h locale = Inl IndexError \<longrightarrow> snd (avail h locale) = Inr False) \<and>
   (\<forall>n pre x post.
      normalize_locale h locale = Inr n \<and> snd (list_avail h) = pre @ x # post \<and>
      (\<forall>p \<in> set pre. \<exists>y. normalize_locale h (strip p) = Inr y \<and> y \<noteq> n) \<and>
      normalize_locale h (strip x) = Inr n \<longrightarrow>
      snd (avail h locale) = Inr True) \<and>
   (\<forall>n. normalize_locale h locale = Inr n \<and>
        (\<forall>x \<in> set (snd (list_avail h)). \<exists>y. normalize_locale h (strip x) = Inr y \<and> y \<noteq> n) \<longrightarrow>
      snd (avail h locale) = Inr False) \<and>
   (\<forall>n b. normalize_locale h locale = Inr n \<and> snd (avail h locale) = Inr b \<longrightarrow>
      b = (\<exists>x \<in> set (snd (list_avail h)). normalize_locale h (strip x) = Inr n)) \<and>
   (\<forall>n. normalize_locale h locale = Inr n \<and>
        (\<forall>x \<in> set (snd (list_avail h)). \<exists>y. normalize_locale h (strip x) = Inr y) \<longrightarrow>
      snd (avail h locale) =
        Inr (\<exists>x \<in> set (snd (list_avail h)). normalize_locale h (strip x) = Inr n)) \<and>
   (normalize_locale h locale = normalize_locale h locale' \<longrightarrow>
      snd (avail h locale) = snd (avail h locale'))"
proof (intro conjI allI impI)
  assume "normalize_locale h locale = Inl IndexError"
  then show "snd (avail h locale) = Inr False"
    by (simp add: avail_def)
next
  fix n pre x post
  assume a: "normalize_locale h locale = Inr n \<and> snd (list_avail h) = pre @ x # post \<and>
      (\<forall>p \<in> set pre. \<exists>y. normalize_locale h (strip p) = Inr y \<and> y \<noteq> n) \<and>
      normalize_locale h (strip x) = Inr n"
  then have "avail_search h n (pre @ x # post) = Inr True"
    by (intro avail_search_first_match) simp_all
  with a show "snd (avail h locale) = Inr True"
    by (simp add: avail_def)
next
  fix n
  assume a: "normalize_locale h locale = Inr n \<and>
    (\<forall>x \<in> set (snd (list_avail h)). \<exists>y. normalize_locale h (strip x) = Inr y \<and> y \<noteq> n)"
  then have "avail_search h n (snd (list_avail h)) = Inr False"
    by (intro avail_search_no_match) simp
  with a show "snd (avail h locale) = Inr False"
    by (simp add: avail_def)
next
  fix n b
  assume "normalize_locale h locale = Inr n \<and> snd (avail h locale) = Inr b"
  then have "avail_search h n (snd (list_avail h)) = Inr b"
    by (auto simp add: avail_def)
  then show "b = (\<exists>x \<in> set (snd (list_avail h)). normalize_locale h (strip x) = Inr n)"
    by (rule avail_search_returns)
next
  fix n
  assume a: "normalize_locale h locale = Inr n \<and>
    (\<forall>x \<in> set (snd (list_avail h)). \<exists>y. normalize_locale h (strip x) = Inr y)"
  then have "avail_search h n (snd (list_avail h)) =
      Inr (\<exists>x \<in> set (snd (list_avail h)). normalize_locale h (strip x) = Inr n)"
    by (intro avail_search_total) simp
  with a show "snd (avail h locale) =
      Inr (\<exists>x \<in> set (snd (list_avail h)). normalize_locale h (strip x) = Inr n)"
    by (simp add: avail_def)
next
  assume "normalize_locale h locale = normalize_locale h locale'"
  then show "snd (avail h locale) = snd (avail h locale')"
    by (simp add: avail_def split: sum.splits)
qed

lemma strip_examples:
  "strip ''C'' = ''C''" "strip ''en_US.utf8'' = ''en_US.utf8''" "strip [] = []"
  "strip ''POSIX'' = ''POSIX''"
  by (simp_all add: strip_def py_isspace_def)

lemma normalize_printing_host:
  "normalize_locale (printing_host fam out) = example_normalize"
  by (simp add: printing_host_def base_host_def)

text \<open>A host whose \<^verbatim>\<open>locale -a\<close> prints the two lines \<^verbatim>\<open>C\<close> and \<^verbatim>\<open>en_US.utf8\<close>: the empty
  request fails to normalize, \<^verbatim>\<open>en_US.UTF-8\<close> and \<^verbatim>\<open>en_US.utf8\<close> normalize equally and are
  available, \<^verbatim>\<open>de_DE\<close> is not. And a host whose \<^verbatim>\<open>locale -a\<close> prints \<^verbatim>\<open>C\<close>, \<^verbatim>\<open>POSIX\<close> and a
  final line break: the request \<^verbatim>\<open>POSIX\<close> is found before the empty last entry, which
  would not normalize, is reached.\<close>

theorem avail_decides_witness:
  "snd (avail (printing_host ''Debian'' (''C'' @ [LF] @ ''en_US.utf8'')) []) = Inr False \<and>
   snd (avail (printing_host ''Debian'' (''C'' @ [LF] @ ''en_US.utf8'')) ''en_US.UTF-8'') = Inr True \<and>
   snd (avail (printing_host ''Debian'' (''C'' @ [LF] @ ''en_US.utf8'')) ''en_US.utf8'') =
     snd (avail (printing_host ''Debian'' (''C'' @ [LF] @ ''en_US.utf8'')) ''en_US.UTF-8'') \<and>
   snd (avail (printing_host ''Debian'' (''C'' @ [LF] @ ''en_US.utf8'')) ''de_DE'') = Inr False \<and>
   snd (list_avail (printing_host ''Debian'' (''C'' @ [LF] @ ''POSIX'' @ [LF]))) =
     [''C'', ''POSIX'', []] \<and>
   snd (avail (printing_host ''Debian'' (''C'' @ [LF] @ ''POSIX'' @ [LF])) ''POSIX'') = Inr True"
proof -
  define h where "h = printing_host ''Debian'' (''C'' @ [LF] @ ''en_US.utf8'')"
  define g where "g = printing_host ''Debian'' (''C'' @ [LF] @ ''POSIX'' @ [LF])"
  have nz: "normalize_locale h = example_normalize" "normalize_locale g = example_normalize"
    by (simp_all add: h_def g_def normalize_printing_host)
  have la: "snd (list_avail h) = [''C'', ''en_US.utf8'']"
    by (simp add: h_def list_avail_def printing_host_def base_host_def)
  have lg: "snd (list_avail g) = [''C'', ''POSIX'', []]"
    by (simp add: g_def list_avail_def printing_host_def base_host_def)
  have 1: "snd (avail h []) = Inr False"
    using avail_decides [of h "[]" "[]"]
    by (simp add: nz example_normalize_def)
  have 2: "snd (avail h ''en_US.UTF-8'') = Inr True"
    using avail_decides [of h "''en_US.UTF-8''" "''en_US.UTF-8''"]
    by (simp add: nz la example_normalize_def strip_examples)
  have 3: "snd (avail h ''en_US.utf8'') = snd (avail h ''en_US.UTF-8'')"
    using avail_decides [of h "''en_US.utf8''" "''en_US.UTF-8''"]
    by (simp add: nz example_normalize_def)
  have 4: "snd (avail h ''de_DE'') = Inr False"
    using avail_decides [of h "''de_DE''" "''de_DE''"]
    by (simp add: nz la example_normalize_def strip_examples)
  have "normalize_locale g ''POSIX'' = Inr ''POSIX'' \<and>
      snd (list_avail g) = [''C''] @ ''POSIX'' # [[]] \<and>
      (\<forall>p \<in> set [''C'']. \<exists>y. normalize_locale g (strip p) = Inr y \<and> y \<noteq> ''POSIX'') \<and>
      normalize_locale g (strip ''POSIX'') = Inr ''POSIX''"
    by (simp add: nz lg example_normalize_def strip_examples)
  with avail_decides [of g "''POSIX''" "''POSIX''"]
  have 5: "snd (avail g ''POSIX'') = Inr True"
    by blast
  from 1 2 3 4 5 lg show ?thesis unfolding h_def g_def by blast
qed

text \<open>
  The claim as stated, that \<^verbatim>\<open>avail\<close> returns true iff some entry equals the request
  after normalization, fails when an earlier entry cannot be normalized: with
  \<^verbatim>\<open>locale -a\<close> printing \<^verbatim>\<open>C\<close>, an empty line and \<^verbatim>\<open>POSIX\<close>, the entry \<^verbatim>\<open>POSIX\<close> equals the
  request \<^verbatim>\<open>POSIX\<close>, and \<^verbatim>\<open>avail\<close> ends with the \<^verbatim>\<open>IndexError\<close> of the empty entry.
\<close>

theorem avail_entry_before_match_counterexample:
  "snd (avail (printing_host ''Debian'' (''C'' @ [LF, LF] @ ''POSIX'')) ''POSIX'') = Inl IndexError \<and>
   normalize_locale (printing_host ''Debian'' (''C'' @ [LF, LF] @ ''POSIX'')) ''POSIX'' = Inr ''POSIX'' \<and>
   ''POSIX'' \<in> set (snd (list_avail (printing_host ''Debian'' (''C'' @ [LF, LF] @ ''POSIX'')))) \<and>
   normalize_locale (printing_host ''Debian'' (''C'' @ [LF, LF] @ ''POSIX'')) (strip ''POSIX'') =
     Inr ''POSIX''"
  by code_simp

text \<open>
  C10. \<^verbatim>\<open>avail\<close> guards the normalization of the request only: when the request
  normalizes, the entries before some entry \<open>x\<close> of the available-locales list
  normalize without matching, and normalizing the trimmed \<open>x\<close> raises \<open>e\<close>, then
  \<^verbatim>\<open>avail\<close> ends with that exception \<open>e\<close> instead of returning false.
\<close>

theorem avail_entry_failure_propagates:
  assumes "normalize_locale h locale = Inr n"
    and "snd (list_avail h) = pre @ x # post"
    and "\<forall>p \<in> set pre. \<exists>y. normalize_locale h (strip p) = Inr y \<and> y \<noteq> n"
    and "normalize_locale h (strip x) = Inl e"
  shows "snd (avail h locale) = Inl e"
  using assms avail_search_propagates [of pre h n x e post]
  by (simp add: avail_def)

text \<open>A host whose \<^verbatim>\<open>locale -a\<close> prints \<^verbatim>\<open>C\<close> and a line break: the list ends with the
  empty string, and the request \<^verbatim>\<open>de_DE\<close> ends with its \<^verbatim>\<open>IndexError\<close>.\<close>

theorem avail_entry_failure_propagates_witness:
  "snd (list_avail (printing_host ''Debian'' (''C'' @ [LF]))) = [''C'', []] \<and>
   snd (avail (printing_host ''Debian'' (''C'' @ [LF])) ''de_DE'') = Inl IndexError"
proof -
  let ?h = "printing_host ''Debian'' (''C'' @ [LF])"
  have l: "snd (list_avail ?h) = [''C''] @ [] # []"
    by (simp add: list_avail_def printing_host_def base_host_def)
  have n: "normalize_locale ?h ''de_DE'' = Inr ''de_DE''"
    by (simp add: normalize_printing_host example_normalize_def)
  have p: "\<forall>p \<in> set [''C'']. \<exists>y. normalize_locale ?h (strip p) = Inr y \<and> y \<noteq> ''de_DE''"
    by (simp add: normalize_printing_host example_normalize_def strip_examples)
  have e: "normalize_locale ?h (strip []) = Inl IndexError"
    by (simp add: normalize_printing_host example_normalize_def strip_examples)
  from avail_entry_failure_propagates [OF n l p e] l show ?thesis by simp
qed

section \<open>The locale generator: validation\<close>

text \<open>On the file-based hosts the validation is one search of the SUPPORTED file, and
  a second one with the rejoined locale when the first fails and no charmap was
  given.\<close>

lemma gen_locale_validate_file_based:
  assumes "grains_os h = ''Debian'' \<or> grains_os_family h = ''Gentoo''"
  shows "gen_locale_validate h locale =
     (if file_search h supported_file (line_pattern locale) \<or> charmap (split_locale h locale) \<noteq> []
      then ([FileSearch supported_file (line_pattern locale)],
            Inr (locale, split_locale h locale,
                 file_search h supported_file (line_pattern locale), supported_file))
      else ([FileSearch supported_file (line_pattern locale),
             FileSearch supported_file
               (line_pattern (join_locale h
                  ((split_locale h locale)\<lparr>charmap := codeset (split_locale h locale)\<rparr>)))],
            Inr (join_locale h ((split_locale h locale)\<lparr>charmap := codeset (split_locale h locale)\<rparr>),
                 (split_locale h locale)\<lparr>charmap := codeset (split_locale h locale)\<rparr>,
                 file_search h supported_file
                   (line_pattern (join_locale h
                      ((split_locale h locale)\<lparr>charmap := codeset (split_locale h locale)\<rparr>))),
                 supported_file)))"
  using assms by (auto simp add: gen_locale_validate_def Let_def)

lemma gen_locale_validate_directory_based:
  assumes "\<not> (grains_os h = ''Debian'' \<or> grains_os_family h = ''Gentoo'')"
  shows "gen_locale_validate h locale =
     (case os_listdir h (if grains_os_family h = ''Suse'' then ''/usr/share/locale''
                         else ''/usr/share/i18n/locales'') of
        Inl ex \<Rightarrow>
          ([LogError ex],
           Inl (CommandExecutionError (''Locale '' @ [dq] @ locale @ [dq] @ '' is not available.'')))
      | Inr entries \<Rightarrow>
          ([], Inr (locale, split_locale h locale, lang_terr (split_locale h locale) \<in> set entries,
                    if grains_os_family h = ''Suse'' then ''/usr/share/locale''
                    else ''/usr/share/i18n/locales'')))"
  using assms by (simp add: gen_locale_validate_def Let_def)

lemma gen_locale_invalid:
  "gen_locale_validate h locale = (tr, Inr (locale', info, False, search)) \<Longrightarrow>
   gen_locale h locale verbose = (tr @ [LogError (not_found_msg locale' search)], Inr (RetBool False))"
  by (simp add: gen_locale_def)

lemma gen_locale_validate_raises:
  "gen_locale_validate h locale = (tr, Inl e) \<Longrightarrow> gen_locale h locale verbose = (tr, Inl e)"
  by (simp add: gen_locale_def)

lemma gen_locale_valid:
  "gen_locale_validate h locale = (tr, Inr (locale', info, True, search)) \<Longrightarrow>
   gen_locale h locale verbose =
     (case gen_locale_cmd h locale' info verbose of
        Inl e \<Rightarrow> (tr @ gen_locale_register h locale' info, Inl e)
      | Inr cmd \<Rightarrow>
          (tr @ gen_locale_register h locale' info @ [CmdRunAll cmd] @
           (if retcode (cmd_run_all h cmd) \<noteq> 0 then [LogError (stderr (cmd_run_all h cmd))] else []),
           Inr (if verbose then RetRes (cmd_run_all h cmd)
                else RetBool (retcode (cmd_run_all h cmd) = 0))))"
  by (simp add: gen_locale_def Let_def split: sum.splits)

text \<open>
  C2. \<^verbatim>\<open>gen_locale\<close> returns false, and raises nothing, when the validation fails: on
  a file-based host when the locale is not found in the SUPPORTED file and either a
  charmap was given or the rejoined locale is not found either, on a directory-based
  host when the listing holds no \<^verbatim>\<open><language>_<territory>\<close> entry. When the directory
  cannot be listed it raises \<^verbatim>\<open>CommandExecutionError\<close> instead.
\<close>

theorem gen_locale_unsupported_returns_false:
  "((grains_os h = ''Debian'' \<or> grains_os_family h = ''Gentoo'') \<and>
    \<not> file_search h supported_file (line_pattern locale) \<and>
    (charmap (split_locale h locale) \<noteq> [] \<or>
     \<not> file_search h supported_file
         (line_pattern (join_locale h
            ((split_locale h locale)\<lparr>charmap := codeset (split_locale h locale)\<rparr>)))) \<longrightarrow>
    snd (gen_locale h locale verbose) = Inr (RetBool False)) \<and>
   (\<not> (grains_os h = ''Debian'' \<or> grains_os_family h = ''Gentoo'') \<and>
    os_listdir h (if grains_os_family h = ''Suse'' then ''/usr/share/locale''
                  else ''/usr/share/i18n/locales'') = Inr entries \<and>
    lang_terr (split_locale h locale) \<notin> set entries \<longrightarrow>
    snd (gen_locale h locale verbose) = Inr (RetBool False)) \<and>
   (\<not> (grains_os h = ''Debian'' \<or> grains_os_family h = ''Gentoo'') \<and>
    os_listdir h (if grains_os_family h = ''Suse'' then ''/usr/share/locale''
                  else ''/usr/share/i18n/locales'') = Inl ex \<longrightarrow>
    snd (gen_locale h locale verbose) =
      Inl (CommandExecutionError (''Locale '' @ [dq] @ locale @ [dq] @ '' is not available.'')))"
proof (intro conjI impI)
  assume a: "(grains_os h = ''Debian'' \<or> grains_os_family h = ''Gentoo'') \<and>
    \<not> file_search h supported_file (line_pattern locale) \<and>
    (charmap (split_locale h locale) \<noteq> [] \<or>
     \<not> file_search h supported_file
         (line_pattern (join_locale h
            ((split_locale h locale)\<lparr>charmap := codeset (split_locale h locale)\<rparr>))))"
  then have fb: "grains_os h = ''Debian'' \<or> grains_os_family h = ''Gentoo''" by blast
  from a have "\<exists>tr locale' info search.
      gen_locale_validate h locale = (tr, Inr (locale', info, False, search))"
    by (auto simp add: gen_locale_validate_file_based [OF fb])
  then show "snd (gen_locale h locale verbose) = Inr (RetBool False)"
    by (auto simp add: gen_locale_invalid)
next
  assume a: "\<not> (grains_os h = ''Debian'' \<or> grains_os_family h = ''Gentoo'') \<and>
    os_listdir h (if grains_os_family h = ''Suse'' then ''/usr/share/locale''
                  else ''/usr/share/i18n/locales'') = Inr entries \<and>
    lang_terr (split_locale h locale) \<notin> set entries"
  then have db: "\<not> (grains_os h = ''Debian'' \<or> grains_os_family h = ''Gentoo'')" by blast
  from a have "\<exists>tr locale' info search.
      gen_locale_validate h locale = (tr, Inr (locale', info, False, search))"
    by (simp add: gen_locale_validate_directory_based [OF db])
  then show "snd (gen_locale h locale verbose) = Inr (RetBool False)"
    by (auto simp add: gen_locale_invalid)
next
  assume a: "\<not> (grains_os h = ''Debian'' \<or> grains_os_family h = ''Gentoo'') \<and>
    os_listdir h (if grains_os_family h = ''Suse'' then ''/usr/share/locale''
                  else ''/usr/share/i18n/locales'') = Inl ex"
  then have db: "\<not> (grains_os h = ''Debian'' \<or> grains_os_family h = ''Gentoo'')" by blast
  from a have "gen_locale_validate h locale =
      ([LogError ex],
       Inl (CommandExecutionError (''Locale '' @ [dq] @ locale @ [dq] @ '' is not available.'')))"
    by (simp add: gen_locale_validate_directory_based [OF db])
  then show "snd (gen_locale h locale verbose) =
      Inl (CommandExecutionError (''Locale '' @ [dq] @ locale @ [dq] @ '' is not available.''))"
    by (simp add: gen_locale_validate_raises)
qed

lemma gen_host_fields:
  "grains_os (gen_host os fam tools) = os"
  "grains_os_family (gen_host os fam tools) = fam"
  "file_search (gen_host os fam tools) =
     (\<lambda>path pat. path = supported_file \<and> pat = ''^en_US.UTF-8 UTF-8$'')"
  "os_listdir (gen_host os fam tools) =
     (\<lambda>path. if path = ''/usr/share/i18n/locales'' then Inr [''en_US'', ''de_DE'']
              else Inl ''No such file or directory'')"
  "os_path_exists (gen_host os fam tools) = (\<lambda>path. path = ''/etc/locale.gen'')"
  "which (gen_host os fam tools) =
     (\<lambda>name. if name \<in> set tools then Some (''/usr/sbin/'' @ name) else None)"
  "split_locale (gen_host os fam tools) = example_split"
  "join_locale (gen_host os fam tools) = example_join"
  "cmd_run_all (gen_host os fam tools) = (\<lambda>_. \<lparr>retcode = 0, stdout = [], stderr = []\<rparr>)"
  by (simp_all add: gen_host_def base_host_def)

text \<open>On a Debian host the locale \<^verbatim>\<open>xx_XX\<close> is in the SUPPORTED file neither as it is nor
  rejoined; on a Fedora host the directory holds no \<^verbatim>\<open>fr_FR_\<close>; on a SUSE host
  \<^verbatim>\<open>/usr/share/locale\<close> cannot be listed.\<close>

theorem gen_locale_unsupported_returns_false_witness:
  "snd (gen_locale (gen_host ''Debian'' ''Debian'' [''locale-gen'']) ''xx_XX'' False) =
     Inr (RetBool False) \<and>
   snd (gen_locale (gen_host ''Fedora'' ''RedHat'' [''localedef'']) ''fr_FR'' False) =
     Inr (RetBool False) \<and>
   snd (gen_locale (gen_host ''SUSE'' ''Suse'' [''localedef'']) ''en_US.UTF-8'' False) =
     Inl (CommandExecutionError (''Locale '' @ [dq] @ ''en_US.UTF-8'' @ [dq] @ '' is not available.''))"
proof -
  have 1: "snd (gen_locale (gen_host ''Debian'' ''Debian'' [''locale-gen'']) ''xx_XX'' False) =
     Inr (RetBool False)"
    using gen_locale_unsupported_returns_false
      [of "gen_host ''Debian'' ''Debian'' [''locale-gen'']" "''xx_XX''" False "[]" "[]"]
    by (simp add: gen_host_fields example_split_def example_join_def line_pattern_def
        supported_file_def)
  have 2: "snd (gen_locale (gen_host ''Fedora'' ''RedHat'' [''localedef'']) ''fr_FR'' False) =
     Inr (RetBool False)"
    using gen_locale_unsupported_returns_false
      [of "gen_host ''Fedora'' ''RedHat'' [''localedef'']" "''fr_FR''" False
          "[''en_US'', ''de_DE'']" "[]"]
    by (simp add: gen_host_fields example_split_def lang_terr_def)
  have 3: "snd (gen_locale (gen_host ''SUSE'' ''Suse'' [''localedef'']) ''en_US.UTF-8'' False) =
     Inl (CommandExecutionError (''Locale '' @ [dq] @ ''en_US.UTF-8'' @ [dq] @ '' is not available.''))"
    using gen_locale_unsupported_returns_false
      [of "gen_host ''SUSE'' ''Suse'' [''localedef'']" "''en_US.UTF-8''" False
          "[]" "''No such file or directory''"]
    by (simp add: gen_host_fields)
  from 1 2 3 show ?thesis by blast
qed

section \<open>The locale generator: searches, registration and compilation\<close>





lemma dot_match_same: "LF \<notin> set l \<Longrightarrow> dot_match l l"
  by (induction l) auto









text \<open>
  C7. For every validated locale \<^verbatim>\<open>gen_locale\<close> runs \<^verbatim>\<open>locale-gen\<close> when that is on the
  search path, otherwise \<^verbatim>\<open>localedef\<close> when that is on the search path, and returns
  what the command gives; when neither tool is found it runs no command and raises
  \<^verbatim>\<open>CommandExecutionError\<close>.
\<close>

theorem gen_locale_compile_tool:
  assumes "gen_locale_validate h locale = (tr, Inr (locale', info, True, search))"
    and "with_locale_gen =
           [''locale-gen''] @ (if grains_os_family h = ''Gentoo'' then [''--generate''] else []) @
           (if grains_os h \<noteq> ''Ubuntu'' then [locale'] else [])"
    and "with_localedef =
           [''localedef'', ''--force'', ''-i'', language info @ ''_'' @ territory info,
            ''-f'', codeset info, locale', if verbose then ''--verbose'' else ''--quiet'']"
    and "run_log = (\<lambda>cmd. [CmdRunAll cmd] @
                  (if retcode (cmd_run_all h cmd) \<noteq> 0 then [LogError (stderr (cmd_run_all h cmd))]
                   else []))"
    and "returned = (\<lambda>cmd. if verbose then RetRes (cmd_run_all h cmd)
                            else RetBool (retcode (cmd_run_all h cmd) = 0))"
  shows "(which h ''locale-gen'' \<noteq> None \<longrightarrow>
            gen_locale h locale verbose =
              (tr @ gen_locale_register h locale' info @ run_log with_locale_gen,
               Inr (returned with_locale_gen))) \<and>
         (which h ''locale-gen'' = None \<and> which h ''localedef'' \<noteq> None \<longrightarrow>
            gen_locale h locale verbose =
              (tr @ gen_locale_register h locale' info @ run_log with_localedef,
               Inr (returned with_localedef))) \<and>
         (which h ''locale-gen'' = None \<and> which h ''localedef'' = None \<longrightarrow>
            gen_locale h locale verbose =
              (tr @ gen_locale_register h locale' info,
               Inl (CommandExecutionError
                 (''Command '' @ [dq] @ ''locale-gen'' @ [dq] @ '' or '' @ [dq] @ ''localedef'' @ [dq] @
                  '' was not found on this system.''))))"
proof (intro conjI impI)
  assume "which h ''locale-gen'' \<noteq> None"
  then have "gen_locale_cmd h locale' info verbose = Inr with_locale_gen"
    using assms(2) by (simp add: gen_locale_cmd_def)
  then show "gen_locale h locale verbose =
      (tr @ gen_locale_register h locale' info @ run_log with_locale_gen, Inr (returned with_locale_gen))"
    using assms(4,5) by (simp add: gen_locale_valid [OF assms(1)])
next
  assume "which h ''locale-gen'' = None \<and> which h ''localedef'' \<noteq> None"
  then have "gen_locale_cmd h locale' info verbose = Inr with_localedef"
    using assms(3) by (simp add: gen_locale_cmd_def lang_terr_def)
  then show "gen_locale h locale verbose =
      (tr @ gen_locale_register h locale' info @ run_log with_localedef, Inr (returned with_localedef))"
    using assms(4,5) by (simp add: gen_locale_valid [OF assms(1)])
next
  assume "which h ''locale-gen'' = None \<and> which h ''localedef'' = None"
  then have "gen_locale_cmd h locale' info verbose =
      Inl (CommandExecutionError
        (''Command '' @ [dq] @ ''locale-gen'' @ [dq] @ '' or '' @ [dq] @ ''localedef'' @ [dq] @
         '' was not found on this system.''))"
    by (simp add: gen_locale_cmd_def)
  then show "gen_locale h locale verbose =
      (tr @ gen_locale_register h locale' info,
       Inl (CommandExecutionError
         (''Command '' @ [dq] @ ''locale-gen'' @ [dq] @ '' or '' @ [dq] @ ''localedef'' @ [dq] @
          '' was not found on this system.'')))"
    by (simp add: gen_locale_valid [OF assms(1)])
qed

lemma gen_host_validates_en_US:
  "gen_locale_validate (gen_host ''Fedora'' ''RedHat'' tools) ''en_US.UTF-8'' =
     ([], Inr (''en_US.UTF-8'',
               \<lparr>language = ''en'', territory = ''US'', codeset = ''UTF-8'', charmap = []\<rparr>,
               True, ''/usr/share/i18n/locales''))"
  by (simp add: gen_locale_validate_def gen_host_fields example_split_def lang_terr_def)

lemma gen_host_register_en_US:
  "gen_locale_register (gen_host ''Fedora'' ''RedHat'' tools) ''en_US.UTF-8'' info =
     [FileReplace ''/etc/locale.gen'' (locale_gen_pattern ''en_US.UTF-8'') ''en_US.UTF-8'']"
  by (simp add: gen_locale_register_def gen_host_fields)

text \<open>A Fedora host with both tools, with \<^verbatim>\<open>localedef\<close> alone and with neither, asked for
  the valid locale \<^verbatim>\<open>en_US.UTF-8\<close>.\<close>

theorem gen_locale_compile_tool_witness:
  "gen_locale (gen_host ''Fedora'' ''RedHat'' [''locale-gen'', ''localedef'']) ''en_US.UTF-8'' False =
     ([FileReplace ''/etc/locale.gen'' (locale_gen_pattern ''en_US.UTF-8'') ''en_US.UTF-8'',
       CmdRunAll [''locale-gen'', ''en_US.UTF-8'']],
      Inr (RetBool True)) \<and>
   gen_locale (gen_host ''Fedora'' ''RedHat'' [''localedef'']) ''en_US.UTF-8'' False =
     ([FileReplace ''/etc/locale.gen'' (locale_gen_pattern ''en_US.UTF-8'') ''en_US.UTF-8'',
       CmdRunAll [''localedef'', ''--force'', ''-i'', ''en_US'', ''-f'', ''UTF-8'',
                  ''en_US.UTF-8'', ''--quiet'']],
      Inr (RetBool True)) \<and>
   gen_locale (gen_host ''Fedora'' ''RedHat'' []) ''en_US.UTF-8'' False =
     ([FileReplace ''/etc/locale.gen'' (locale_gen_pattern ''en_US.UTF-8'') ''en_US.UTF-8''],
      Inl (CommandExecutionError
        (''Command '' @ [dq] @ ''locale-gen'' @ [dq] @ '' or '' @ [dq] @ ''localedef'' @ [dq] @
         '' was not found on this system.'')))"
proof -
  note t = gen_locale_compile_tool [OF gen_host_validates_en_US refl refl refl refl]
  have 1: "gen_locale (gen_host ''Fedora'' ''RedHat'' [''locale-gen'', ''localedef'']) ''en_US.UTF-8'' False =
     ([FileReplace ''/etc/locale.gen'' (locale_gen_pattern ''en_US.UTF-8'') ''en_US.UTF-8'',
       CmdRunAll [''locale-gen'', ''en_US.UTF-8'']],
      Inr (RetBool True))"
    using t [of "[''locale-gen'', ''localedef'']" False]
    by (simp add: gen_host_fields gen_host_register_en_US)
  have 2: "gen_locale (gen_host ''Fedora'' ''RedHat'' [''localedef'']) ''en_US.UTF-8'' False =
     ([FileReplace ''/etc/locale.gen'' (locale_gen_pattern ''en_US.UTF-8'') ''en_US.UTF-8'',
       CmdRunAll [''localedef'', ''--force'', ''-i'', ''en_US'', ''-f'', ''UTF-8'',
                  ''en_US.UTF-8'', ''--quiet'']],
      Inr (RetBool True))"
    using t [of "[''localedef'']" False]
    by (simp add: gen_host_fields gen_host_register_en_US)
  have 3: "gen_locale (gen_host ''Fedora'' ''RedHat'' []) ''en_US.UTF-8'' False =
     ([FileReplace ''/etc/locale.gen'' (locale_gen_pattern ''en_US.UTF-8'') ''en_US.UTF-8''],
      Inl (CommandExecutionError
        (''Command '' @ [dq] @ ''locale-gen'' @ [dq] @ '' or '' @ [dq] @ ''localedef'' @ [dq] @
         '' was not found on this system.'')))"
    using t [of "[]" False]
    by (simp add: gen_host_fields gen_host_register_en_US)
  from 1 2 3 show ?thesis by blast
qed

text \<open>
  C9. When \<^verbatim>\<open>gen_locale\<close> applies the charmap fallback (a file-based host, the first
  search fails, no charmap was supplied), every later step uses the rejoined locale
  string and not the caller's: the second search, the error logged when that fails
  too, the registration in \<^verbatim>\<open>/etc/locale.gen\<close> or in the Ubuntu per-language file, the
  argument of \<^verbatim>\<open>locale-gen\<close> and the last positional argument of \<^verbatim>\<open>localedef\<close>. After
  its first search the trace is the one below, in which the caller's string does not
  occur.
\<close>

theorem gen_locale_fallback_uses_rejoined_locale:
  assumes "grains_os h = ''Debian'' \<or> grains_os_family h = ''Gentoo''"
    and "\<not> file_search h ''/usr/share/i18n/SUPPORTED'' (''^'' @ locale @ ''$'')"
    and "charmap (split_locale h locale) = []"
    and "info = (split_locale h locale)\<lparr>charmap := codeset (split_locale h locale)\<rparr>"
    and "rejoined = join_locale h info"
    and "run_log = (\<lambda>cmd. [CmdRunAll cmd] @
                  (if retcode (cmd_run_all h cmd) \<noteq> 0 then [LogError (stderr (cmd_run_all h cmd))]
                   else []))"
  shows "fst (gen_locale h locale verbose) =
           [FileSearch ''/usr/share/i18n/SUPPORTED'' (''^'' @ locale @ ''$''),
            FileSearch ''/usr/share/i18n/SUPPORTED'' (''^'' @ rejoined @ ''$'')] @
           (if \<not> file_search h ''/usr/share/i18n/SUPPORTED'' (''^'' @ rejoined @ ''$'') then
              [LogError (''The provided locale '' @ [dq] @ rejoined @ [dq] @
                         '' is not found in /usr/share/i18n/SUPPORTED'')]
            else
              (if os_path_exists h ''/etc/locale.gen'' then
                 [FileReplace ''/etc/locale.gen''
                    (''^'' @ [bsl] @ ''s*#'' @ [bsl] @ ''s*'' @ rejoined @ [bsl] @ ''s*$'') rejoined]
               else if grains_os h = ''Ubuntu'' then
                 [FileTouch (''/var/lib/locales/supported.d/'' @ language info),
                  FileReplace (''/var/lib/locales/supported.d/'' @ language info) rejoined rejoined]
               else []) @
              (if which h ''locale-gen'' \<noteq> None then
                 run_log ([''locale-gen''] @
                      (if grains_os_family h = ''Gentoo'' then [''--generate''] else []) @
                      (if grains_os h \<noteq> ''Ubuntu'' then [rejoined] else []))
               else if which h ''localedef'' \<noteq> None then
                 run_log [''localedef'', ''--force'', ''-i'', language info @ ''_'' @ territory info,
                      ''-f'', codeset info, rejoined, if verbose then ''--verbose'' else ''--quiet'']
               else []))"
proof -
  have v: "gen_locale_validate h locale =
      ([FileSearch ''/usr/share/i18n/SUPPORTED'' (''^'' @ locale @ ''$''),
        FileSearch ''/usr/share/i18n/SUPPORTED'' (''^'' @ rejoined @ ''$'')],
       Inr (rejoined, info,
            file_search h ''/usr/share/i18n/SUPPORTED'' (''^'' @ rejoined @ ''$''),
            ''/usr/share/i18n/SUPPORTED''))"
    using assms(2-5)
    by (simp add: gen_locale_validate_file_based [OF assms(1)] supported_file_def line_pattern_def)
  show ?thesis
  proof (cases "file_search h ''/usr/share/i18n/SUPPORTED'' (''^'' @ rejoined @ ''$'')")
    case False
    with v gen_locale_invalid [of h "locale" _ rejoined info "''/usr/share/i18n/SUPPORTED''" verbose]
    show ?thesis by (simp add: not_found_msg_def)
  next
    case True
    have r: "gen_locale_register h rejoined info =
        (if os_path_exists h ''/etc/locale.gen'' then
           [FileReplace ''/etc/locale.gen''
              (''^'' @ [bsl] @ ''s*#'' @ [bsl] @ ''s*'' @ rejoined @ [bsl] @ ''s*$'') rejoined]
         else if grains_os h = ''Ubuntu'' then
           [FileTouch (''/var/lib/locales/supported.d/'' @ language info),
            FileReplace (''/var/lib/locales/supported.d/'' @ language info) rejoined rejoined]
         else [])"
      by (simp add: gen_locale_register_def locale_gen_pattern_def)
    from v True have v': "gen_locale_validate h locale =
      ([FileSearch ''/usr/share/i18n/SUPPORTED'' (''^'' @ locale @ ''$''),
        FileSearch ''/usr/share/i18n/SUPPORTED'' (''^'' @ rejoined @ ''$'')],
       Inr (rejoined, info, True, ''/usr/share/i18n/SUPPORTED''))"
      by simp
    note g = gen_locale_valid [OF v', of verbose]
    show ?thesis
    proof (cases "which h ''locale-gen'' \<noteq> None")
      case True
      then have "gen_locale_cmd h rejoined info verbose =
          Inr ([''locale-gen''] @
               (if grains_os_family h = ''Gentoo'' then [''--generate''] else []) @
               (if grains_os h \<noteq> ''Ubuntu'' then [rejoined] else []))"
        by (simp add: gen_locale_cmd_def)
      with g True \<open>file_search h ''/usr/share/i18n/SUPPORTED'' (''^'' @ rejoined @ ''$'')\<close>
      show ?thesis by (simp add: r assms(6))
    next
      case False
      note lg = this
      show ?thesis
      proof (cases "which h ''localedef'' \<noteq> None")
        case True
        with lg have "gen_locale_cmd h rejoined info verbose =
            Inr [''localedef'', ''--force'', ''-i'', language info @ ''_'' @ territory info,
                 ''-f'', codeset info, rejoined, if verbose then ''--verbose'' else ''--quiet'']"
          by (simp add: gen_locale_cmd_def lang_terr_def)
        with g lg True \<open>file_search h ''/usr/share/i18n/SUPPORTED'' (''^'' @ rejoined @ ''$'')\<close>
        show ?thesis by (simp add: r assms(6))
      next
        case False
        with lg have "\<exists>e. gen_locale_cmd h rejoined info verbose = Inl e"
          by (simp add: gen_locale_cmd_def)
        with g lg False \<open>file_search h ''/usr/share/i18n/SUPPORTED'' (''^'' @ rejoined @ ''$'')\<close>
        show ?thesis by (auto simp add: r)
      qed
    qed
  qed
qed

text \<open>On the Debian example host the request \<^verbatim>\<open>en_US.UTF-8\<close> falls back to
  \<^verbatim>\<open>en_US.UTF-8 UTF-8\<close>, which is what \<^verbatim>\<open>/etc/locale.gen\<close> and \<^verbatim>\<open>locale-gen\<close> receive.\<close>

theorem gen_locale_fallback_uses_rejoined_locale_witness:
  "fst (gen_locale (gen_host ''Debian'' ''Debian'' [''locale-gen'']) ''en_US.UTF-8'' False) =
     [FileSearch ''/usr/share/i18n/SUPPORTED'' ''^en_US.UTF-8$'',
      FileSearch ''/usr/share/i18n/SUPPORTED'' ''^en_US.UTF-8 UTF-8$'',
      FileReplace ''/etc/locale.gen''
        (''^'' @ [bsl] @ ''s*#'' @ [bsl] @ ''s*en_US.UTF-8 UTF-8'' @ [bsl] @ ''s*$'')
        ''en_US.UTF-8 UTF-8'',
      CmdRunAll [''locale-gen'', ''en_US.UTF-8 UTF-8'']]"
proof -
  define h where "h = gen_host ''Debian'' ''Debian'' [''locale-gen'']"
  have os: "grains_os h = ''Debian'' \<or> grains_os_family h = ''Gentoo''"
    by (simp add: h_def gen_host_fields)
  have s1: "\<not> file_search h ''/usr/share/i18n/SUPPORTED'' (''^'' @ ''en_US.UTF-8'' @ ''$'')"
    by (simp add: h_def gen_host_fields)
  have cm: "charmap (split_locale h ''en_US.UTF-8'') = []"
    by (simp add: h_def gen_host_fields example_split_def)
  have "fst (gen_locale h ''en_US.UTF-8'' False) =
     [FileSearch ''/usr/share/i18n/SUPPORTED'' ''^en_US.UTF-8$'',
      FileSearch ''/usr/share/i18n/SUPPORTED'' ''^en_US.UTF-8 UTF-8$'',
      FileReplace ''/etc/locale.gen''
        (''^'' @ [bsl] @ ''s*#'' @ [bsl] @ ''s*en_US.UTF-8 UTF-8'' @ [bsl] @ ''s*$'')
        ''en_US.UTF-8 UTF-8'',
      CmdRunAll [''locale-gen'', ''en_US.UTF-8 UTF-8'']]"
    using gen_locale_fallback_uses_rejoined_locale [OF os s1 cm refl refl refl, of False]
    by (simp add: h_def gen_host_fields example_split_def example_join_def supported_file_def)
  then show ?thesis unfolding h_def .
qed

section \<open>The file edit of the setter\<close>

lemma split_char_append:
  "split_char c (a @ c # b) = split_char c a @ split_char c b"
  by (induction a) (auto simp: split_char_nonempty split: list.splits)

lemma split_char_free: "x \<in> set (split_char c s) \<Longrightarrow> c \<notin> set x"
proof (induction s arbitrary: x)
  case Nil
  then show ?case by simp
next
  case (Cons y ys)
  then show ?case
    by (cases "split_char c ys") (auto split: if_splits)
qed

lemma join_split_char: "join [c] (split_char c s) = s"
proof (induction s)
  case Nil
  show ?case by simp
next
  case (Cons y ys)
  obtain w ws where w: "split_char c ys = w # ws"
    using split_char_nonempty [of c ys] by (cases "split_char c ys") auto
  show ?case
  proof (cases "y = c")
    case True
    with Cons w show ?thesis by simp
  next
    case False
    with Cons w show ?thesis by (cases ws) auto
  qed
qed

lemma split_char_join:
  "xs \<noteq> [] \<Longrightarrow> \<forall>x \<in> set xs. c \<notin> set x \<Longrightarrow> split_char c (join [c] xs) = xs"
proof (induction xs)
  case Nil
  then show ?case by simp
next
  case (Cons x xs)
  show ?case
  proof (cases xs)
    case Nil
    with Cons.prems show ?thesis by (simp add: split_char_absent)
  next
    case (Cons y ys)
    with Cons.IH Cons.prems have "split_char c (join [c] xs) = xs" by simp
    moreover have "split_char c x = [x]" using Cons.prems by (simp add: split_char_absent)
    ultimately show ?thesis using Cons by (simp add: split_char_append)
  qed
qed

lemma matches_lang_line: "matches_lang (lang_line locale)"
  by (simp add: matches_lang_def lang_line_def)

lemma lang_line_free: "LF \<notin> set locale \<Longrightarrow> LF \<notin> set (lang_line locale)"
  by (simp add: lang_line_def)

lemma not_matches_empty: "\<not> matches_lang []"
  by (simp add: matches_lang_def)

text \<open>An edit that found a matching line is not changed by a second one.\<close>

lemma file_replace_lang_found_twice:
  assumes "LF \<notin> set repl" and "matches_lang repl"
    and "\<exists>l \<in> set (split_char LF content). matches_lang l"
  shows "file_replace_lang repl (file_replace_lang repl content) = file_replace_lang repl content"
proof -
  let ?f = "\<lambda>l. if matches_lang l then repl else l"
  let ?ls = "split_char LF content"
  have once: "file_replace_lang repl content = join [LF] (map ?f ?ls)"
    using assms(3) by (simp add: file_replace_lang_def)
  have free: "\<forall>x \<in> set (map ?f ?ls). LF \<notin> set x"
    using assms(1) by (auto dest: split_char_free)
  have ne: "map ?f ?ls \<noteq> []"
    by (simp add: split_char_nonempty)
  have resplit: "split_char LF (join [LF] (map ?f ?ls)) = map ?f ?ls"
    using ne free by (rule split_char_join)
  have found: "\<exists>l \<in> set (map ?f ?ls). matches_lang l"
    using assms(2,3) by auto
  have same: "map ?f (map ?f ?ls) = map ?f ?ls"
    using assms(2) by simp
  have twice: "file_replace_lang repl (join [LF] (map ?f ?ls)) = join [LF] (map ?f (map ?f ?ls))"
    unfolding file_replace_lang_def resplit using found by (simp only: if_True)
  show ?thesis unfolding once twice same by (rule refl)
qed

text \<open>An edit that appended the line is not changed by a second one.\<close>

lemma file_replace_lang_lines_kept:
  assumes "LF \<notin> set repl" and "matches_lang repl"
    and "split_char LF content' = ls @ [repl, []]"
    and "\<forall>l \<in> set ls. \<not> matches_lang l"
  shows "file_replace_lang repl content' = content'"
proof -
  let ?f = "\<lambda>l. if matches_lang l then repl else l"
  have found: "\<exists>l \<in> set (split_char LF content'). matches_lang l"
    using assms(2,3) by simp
  have "map ?f ls = ls"
    using assms(4) by (intro map_idI) simp
  then have "map ?f (split_char LF content') = split_char LF content'"
    using assms(2,3) by (simp add: not_matches_empty)
  with found have "file_replace_lang repl content' = join [LF] (split_char LF content')"
    by (simp add: file_replace_lang_def)
  then show ?thesis by (simp add: join_split_char)
qed

lemma file_replace_lang_appended_twice:
  assumes "LF \<notin> set repl" and "matches_lang repl"
    and none: "\<not> (\<exists>l \<in> set (split_char LF content). matches_lang l)"
  shows "file_replace_lang repl (file_replace_lang repl content) = file_replace_lang repl content"
proof -
  have tail: "split_char LF (repl @ [LF]) = [repl, []]"
    using split_char_append [of LF repl "[]"] assms(1) by (simp add: split_char_absent)
  show ?thesis
  proof (cases "content = []")
    case True
    then have once: "file_replace_lang repl content = repl @ [LF]"
      using none by (simp add: file_replace_lang_def)
    have "file_replace_lang repl (repl @ [LF]) = repl @ [LF]"
      using file_replace_lang_lines_kept [OF assms(1,2), of "repl @ [LF]" "[]"] tail by simp
    with once show ?thesis by simp
  next
    case False
    note nonempty = this
    show ?thesis
    proof (cases "last content = LF")
      case True
      then have c: "content = butlast content @ [LF]"
        using nonempty by (metis append_butlast_last_id)
      have once: "file_replace_lang repl content = butlast content @ LF # (repl @ [LF])"
        using none True nonempty c
        by (simp add: file_replace_lang_def)
      have "split_char LF content = split_char LF (butlast content) @ [[]]"
        using split_char_append [of LF "butlast content" "[]"] c by simp
      then have sub: "\<forall>l \<in> set (split_char LF (butlast content)). \<not> matches_lang l"
        using none by simp
      have sp: "split_char LF (butlast content @ LF # (repl @ [LF])) =
          split_char LF (butlast content) @ [repl, []]"
        using split_char_append [of LF "butlast content" "repl @ [LF]"] tail by simp
      from file_replace_lang_lines_kept [OF assms(1,2) sp sub] once show ?thesis by simp
    next
      case False
      then have once: "file_replace_lang repl content = content @ LF # (repl @ [LF])"
        using none nonempty by (simp add: file_replace_lang_def)
      have sub: "\<forall>l \<in> set (split_char LF content). \<not> matches_lang l"
        using none by simp
      have sp: "split_char LF (content @ LF # (repl @ [LF])) = split_char LF content @ [repl, []]"
        using split_char_append [of LF content "repl @ [LF]"] tail by simp
      from file_replace_lang_lines_kept [OF assms(1,2) sp sub] once show ?thesis by simp
    qed
  qed
qed

text \<open>
  C8, amended. For every initial file content and every locale that holds no line
  break, the RedHat/Debian file edit of \<^verbatim>\<open>set_locale\<close> (every line matching \<^verbatim>\<open>^LANG=.*\<close>
  becomes \<^verbatim>\<open>LANG="<locale>"\<close>, which is appended if no line matches) is idempotent:
  applied twice with the same locale it gives the content it gives when applied once.
\<close>

theorem set_locale_edit_idempotent:
  assumes "LF \<notin> set locale"
  shows "set_locale_edit locale (set_locale_edit locale content) = set_locale_edit locale content"
proof (cases "\<exists>l \<in> set (split_char LF content). matches_lang l")
  case True
  from file_replace_lang_found_twice [OF lang_line_free [OF assms] matches_lang_line True]
  show ?thesis by (simp add: set_locale_edit_def)
next
  case False
  from file_replace_lang_appended_twice [OF lang_line_free [OF assms] matches_lang_line False]
  show ?thesis by (simp add: set_locale_edit_def)
qed

text \<open>A file of three lines whose second sets \<open>LANG\<close>, and a file without such a line.\<close>

theorem set_locale_edit_idempotent_witness:
  "set_locale_edit ''en_US.UTF-8'' (''A=1'' @ [LF] @ ''LANG=C'' @ [LF] @ ''B=2'' @ [LF]) =
     ''A=1'' @ [LF] @ ''LANG='' @ [dq] @ ''en_US.UTF-8'' @ [dq] @ [LF] @ ''B=2'' @ [LF] \<and>
   set_locale_edit ''en_US.UTF-8''
     (set_locale_edit ''en_US.UTF-8'' (''A=1'' @ [LF] @ ''LANG=C'' @ [LF] @ ''B=2'' @ [LF])) =
     set_locale_edit ''en_US.UTF-8'' (''A=1'' @ [LF] @ ''LANG=C'' @ [LF] @ ''B=2'' @ [LF]) \<and>
   set_locale_edit ''en_US.UTF-8'' ''A=1'' =
     ''A=1'' @ [LF] @ ''LANG='' @ [dq] @ ''en_US.UTF-8'' @ [dq] @ [LF] \<and>
   set_locale_edit ''en_US.UTF-8'' (set_locale_edit ''en_US.UTF-8'' ''A=1'') =
     set_locale_edit ''en_US.UTF-8'' ''A=1''"
proof -
  have nl: "LF \<notin> set ''en_US.UTF-8''" by simp
  have 1: "set_locale_edit ''en_US.UTF-8'' (''A=1'' @ [LF] @ ''LANG=C'' @ [LF] @ ''B=2'' @ [LF]) =
     ''A=1'' @ [LF] @ ''LANG='' @ [dq] @ ''en_US.UTF-8'' @ [dq] @ [LF] @ ''B=2'' @ [LF]"
    by code_simp
  have 2: "set_locale_edit ''en_US.UTF-8'' ''A=1'' =
     ''A=1'' @ [LF] @ ''LANG='' @ [dq] @ ''en_US.UTF-8'' @ [dq] @ [LF]"
    by code_simp
  from 1 2 set_locale_edit_idempotent [OF nl, of "''A=1'' @ [LF] @ ''LANG=C'' @ [LF] @ ''B=2'' @ [LF]"]
    set_locale_edit_idempotent [OF nl, of "''A=1''"]
  show ?thesis by blast
qed

text \<open>
  The claim as stated, for every locale, fails for a locale that holds a line break:
  with the locale \<^verbatim>\<open>a\nb\<close> on the file \<^verbatim>\<open>LANG=x\<close> the first edit leaves the two lines
  \<^verbatim>\<open>LANG="a\<close> and \<^verbatim>\<open>b"\<close>, and the second edit replaces the first of them again and leaves
  three lines.
\<close>

theorem set_locale_edit_line_break_counterexample:
  "set_locale_edit (''a'' @ [LF] @ ''b'') ''LANG=x'' =
     ''LANG='' @ [dq] @ ''a'' @ [LF] @ ''b'' @ [dq] \<and>
   set_locale_edit (''a'' @ [LF] @ ''b'') (set_locale_edit (''a'' @ [LF] @ ''b'') ''LANG=x'') =
     ''LANG='' @ [dq] @ ''a'' @ [LF] @ ''b'' @ [dq] @ [LF] @ ''b'' @ [dq] \<and>
   set_locale_edit (''a'' @ [LF] @ ''b'') (set_locale_edit (''a'' @ [LF] @ ''b'') ''LANG=x'') \<noteq>
     set_locale_edit (''a'' @ [LF] @ ''b'') ''LANG=x''"
  by code_simp

end
